theory Spec2Isabelle
  imports Complex_Main
begin

section \<open>JavaScript values used by the watchlist actions\<close>

text \<open>
  A thrown value. The only property the code ever reads from one is its numeric
  \<^verbatim>\<open>code\<close> (\<^verbatim>\<open>err.code === 11000\<close> in \<^verbatim>\<open>addToWatchlist\<close>), which most errors lack.
\<close>

datatype js_error = Thrown (err_code: "int option")

text \<open>
  Numbers. A number that reaches the formatting code is an IEEE 754 double parsed
  from a JSON body: a finite double, which is a rational and is carried as that
  exact value, or an infinity (a literal such as \<^verbatim>\<open>1e999\<close> parses to
  \<^verbatim>\<open>Infinity\<close>). JSON has no \<^verbatim>\<open>NaN\<close>, and neither operation of the code makes one of
  these values. The zero \<open>Num 0\<close> stands for both zeros; both are falsy, so neither is
  ever formatted.
\<close>

datatype number = Num rat | PosInfinity | NegInfinity

text \<open>The comparisons \<^verbatim>\<open>x > c\<close> and \<^verbatim>\<open>x >= c\<close> with a finite constant.\<close>

definition greater_than :: "number \<Rightarrow> rat \<Rightarrow> bool" where
  "greater_than x c = (case x of Num v \<Rightarrow> c < v | PosInfinity \<Rightarrow> True | NegInfinity \<Rightarrow> False)"

definition at_least :: "number \<Rightarrow> rat \<Rightarrow> bool" where
  "at_least x c = (case x of Num v \<Rightarrow> c \<le> v | PosInfinity \<Rightarrow> True | NegInfinity \<Rightarrow> False)"

text \<open>An optional numeric property: \<open>None\<close> is \<^verbatim>\<open>undefined\<close>. Truthiness as in
  \<^verbatim>\<open>v ? a : b\<close>: \<^verbatim>\<open>undefined\<close> and \<^verbatim>\<open>0\<close> are falsy.\<close>

definition truthy :: "number option \<Rightarrow> bool" where
  "truthy v = (case v of None \<Rightarrow> False | Some x \<Rightarrow> x \<noteq> Num 0)"

text \<open>\<^verbatim>\<open>a || b\<close>: the left operand when it is truthy, the right one otherwise.\<close>

definition or_else :: "number option \<Rightarrow> number option \<Rightarrow> number option" where
  "or_else a b = (if truthy a then a else b)"

text \<open>\<^verbatim>\<open>a ?? b\<close> on optional strings: the right operand only when the left is undefined.\<close>

definition nullish :: "string option \<Rightarrow> string option \<Rightarrow> string option" where
  "nullish a b = (case a of None \<Rightarrow> b | Some x \<Rightarrow> Some x)"

text \<open>\<^verbatim>\<open>!s\<close> for a string: the empty string is falsy; for an optional string,
  \<^verbatim>\<open>undefined\<close> is falsy too.\<close>

definition falsy_str :: "string option \<Rightarrow> bool" where
  "falsy_str s = (case s of None \<Rightarrow> True | Some x \<Rightarrow> x = [])"

subsection \<open>Double arithmetic\<close>

text \<open>The number of binary digits of a natural number.\<close>

fun bit_length :: "nat \<Rightarrow> nat" where
  "bit_length n = (if n = 0 then 0 else Suc (bit_length (n div 2)))"

declare bit_length.simps [simp del]

text \<open>The binary exponent of a positive rational: the \<open>e\<close> with
  \<open>2^e \<le> a < 2^(e+1)\<close>.\<close>

definition binade :: "rat \<Rightarrow> int" where
  "binade a = (if 1 \<le> a then int (bit_length (nat \<lfloor>a\<rfloor>)) - 1
               else - int (bit_length (nat (\<lceil>1 / a\<rceil> - 1))))"

definition pow2 :: "int \<Rightarrow> rat" where
  "pow2 e = (if 0 \<le> e then 2 ^ nat e else 1 / 2 ^ nat (- e))"

text \<open>The nearest integer, the even one of the two on a tie.\<close>

definition round_half_even :: "rat \<Rightarrow> int" where
  "round_half_even y =
     (let f = \<lfloor>y\<rfloor>; d = y - of_int f
      in if d < 1 / 2 then f else if 1 / 2 < d then f + 1 else if even f then f else f + 1)"

text \<open>
  The double an exact result is rounded to (IEEE 754 binary64, round to nearest,
  ties to even). The doubles with binary exponent \<open>e\<close> are the multiples of
  \<open>2^(e - 52)\<close>, those of the subnormal range the multiples of \<open>2^(-1074)\<close>; a result
  that rounds to \<open>2^1024\<close> or beyond is an infinity.
\<close>

definition round_double :: "rat \<Rightarrow> number" where
  "round_double x =
     (if x = 0 then Num 0
      else (let a = \<bar>x\<bar>;
                q = pow2 (max (binade a - 52) (- 1074));
                r = of_int (round_half_even (a / q)) * q
            in if 2 ^ 1024 \<le> r then (if x < 0 then NegInfinity else PosInfinity)
               else Num (if x < 0 then - r else r)))"

text \<open>The two operations of the code, \<^verbatim>\<open>x / 1e3\<close> and \<^verbatim>\<open>x * 1e3\<close>; \<^verbatim>\<open>1e3\<close> is the double
  1000.\<close>

definition div_1e3 :: "number \<Rightarrow> number" where
  "div_1e3 x =
     (case x of
        Num v \<Rightarrow> round_double (v / 1000)
      | PosInfinity \<Rightarrow> PosInfinity
      | NegInfinity \<Rightarrow> NegInfinity)"

definition mul_1e3 :: "number \<Rightarrow> number" where
  "mul_1e3 x =
     (case x of
        Num v \<Rightarrow> round_double (v * 1000)
      | PosInfinity \<Rightarrow> PosInfinity
      | NegInfinity \<Rightarrow> NegInfinity)"

subsection \<open>\<^verbatim>\<open>Number.prototype.toFixed\<close>\<close>

text \<open>The decimal digits of a natural number, most significant first.\<close>

definition digit_char :: "nat \<Rightarrow> char" where
  "digit_char d = ''0123456789'' ! d"

fun digits :: "nat \<Rightarrow> string" where
  "digits n = (if n < 10 then [digit_char n] else digits (n div 10) @ [digit_char (n mod 10)])"

declare digits.simps [simp del]

text \<open>
  \<^verbatim>\<open>Number::toString\<close> of a double \<open>a\<close> of at least \<open>10^21\<close>, which is what \<^verbatim>\<open>toFixed\<close>
  returns from there on (ECMA-262, Number::toString, step 5 in the form of its
  note 2, which the engines follow): of the decimals \<open>s * 10^(n - k)\<close> with \<open>k\<close>
  digits \<open>s\<close> that round to \<open>a\<close>, the one with the fewest digits, among those the
  one nearest to \<open>a\<close>, and the even \<open>s\<close> on a tie. Such a value has \<open>n > 21\<close>, so it
  is written with an exponent. \<open>n0\<close> is the number of digits of \<open>a\<close>, an integer.

  \<open>shortest_at\<close> tries one length \<open>k\<close>: only the two \<open>k\<close>-digit numbers around
  \<open>a / 10^(n0 - k)\<close> can be nearest; the upper one may be \<open>10^k\<close>, which is
  \<open>10^(k - 1)\<close> with one more digit before the point. \<open>shortest_from\<close> tries the
  lengths in turn; seventeen digits identify every double.
\<close>

definition shortest_at :: "rat \<Rightarrow> nat \<Rightarrow> nat \<Rightarrow> (nat \<times> nat) option" where
  "shortest_at a n0 k =
     (let p = 10 ^ (n0 - k);
          lo = nat \<lfloor>a / p\<rfloor>;
          hi = lo + 1;
          lo_ok = (round_double (of_nat lo * p) = Num a);
          hi_ok = (round_double (of_nat hi * p) = Num a);
          dlo = a - of_nat lo * p;
          dhi = of_nat hi * p - a;
          pick = (if lo_ok \<and> hi_ok
                  then (if dlo < dhi then Some lo else if dhi < dlo then Some hi
                        else if even lo then Some lo else Some hi)
                  else if lo_ok then Some lo else if hi_ok then Some hi else None)
      in case pick of
           None \<Rightarrow> None
         | Some s \<Rightarrow> if s = 10 ^ k then Some (10 ^ (k - 1), n0 + 1) else Some (s, n0))"

fun shortest_from :: "rat \<Rightarrow> nat \<Rightarrow> nat \<Rightarrow> nat \<Rightarrow> nat \<times> nat" where
  "shortest_from a n0 k 0 = (nat \<lfloor>a / 10 ^ (n0 - k)\<rfloor>, n0)"
| "shortest_from a n0 k (Suc more) =
     (case shortest_at a n0 k of
        Some sn \<Rightarrow> sn
      | None \<Rightarrow> shortest_from a n0 (Suc k) more)"

definition toString_large :: "rat \<Rightarrow> string" where
  "toString_large a =
     (let n0 = length (digits (nat \<lfloor>a\<rfloor>));
          (s, n) = shortest_from a n0 1 17;
          ds = digits s
      in (if length ds = 1 then ds else [hd ds] @ ''.'' @ tl ds) @ ''e+'' @ digits (n - 1))"

text \<open>
  \<^verbatim>\<open>x.toFixed(f)\<close> after ECMA-262 (Number.prototype.toFixed): an infinity gives its
  name; otherwise the sign is split off; from \<open>10^21\<close> on the result is
  \<^verbatim>\<open>Number::toString\<close> of the absolute value; below, \<open>n\<close> is the integer nearest to
  \<open>x * 10^f\<close> (the larger one on a tie), its decimal digits are padded with zeros
  to \<open>f + 1\<close> places and the point is put before the last \<open>f\<close>.
\<close>

definition toFixed :: "nat \<Rightarrow> number \<Rightarrow> string" where
  "toFixed f x =
     (case x of
        PosInfinity \<Rightarrow> ''Infinity''
      | NegInfinity \<Rightarrow> ''-Infinity''
      | Num v \<Rightarrow>
          (let s = (if v < 0 then ''-'' else '''');
               a = \<bar>v\<bar>
           in if 10 ^ 21 \<le> a then s @ toString_large a
              else (let n = nat \<lfloor>a * 10 ^ f + 1 / 2\<rfloor>;
                        m = digits n;
                        m' = (if f \<noteq> 0
                              then (let z = (if length m \<le> f
                                             then replicate (f + 1 - length m) (CHR ''0'') @ m
                                             else m);
                                        k = length z
                                    in take (k - f) z @ ''.'' @ drop (k - f) z)
                              else m)
                    in s @ m')))"

text \<open>\<^verbatim>\<open>v ? render(v) : undefined\<close>.\<close>

definition when_truthy :: "number option \<Rightarrow> (number \<Rightarrow> string) \<Rightarrow> string option" where
  "when_truthy v render =
     (case v of None \<Rightarrow> None | Some x \<Rightarrow> if x \<noteq> Num 0 then Some (render x) else None)"

section \<open>Data\<close>

text \<open>
  A stored watchlist document, read with \<^verbatim>\<open>.lean()\<close>: the four fields the actions
  use. \<open>addedAt\<close> is a date, taken as milliseconds since the epoch.
\<close>

record watchlist_item =
  userId :: string
  symbol :: string
  company :: string
  addedAt :: int

text \<open>
  \<^verbatim>\<open>StockWithData\<close>: the stored fields and the optional live fields. A field that the
  returned object literal does not have, or has as \<^verbatim>\<open>undefined\<close>, is \<open>None\<close>.
\<close>

record StockWithData = watchlist_item +
  currentPrice :: "number option"
  changePercent :: "number option"
  priceFormatted :: "string option"
  changeFormatted :: "string option"
  marketCap :: "string option"
  peRatio :: "string option"

text \<open>
  The parsed bodies of the three Finnhub endpoints at the types the code casts them
  to (\<^verbatim>\<open>QuoteData\<close>, \<^verbatim>\<open>ProfileData\<close>, \<^verbatim>\<open>FinancialsData\<close>): every property is an optional
  number. \<open>quote_c\<close> and \<open>quote_dp\<close> are the properties \<^verbatim>\<open>c\<close> and \<^verbatim>\<open>dp\<close>.
\<close>

record QuoteData =
  quote_c :: "number option"
  quote_dp :: "number option"

record ProfileData =
  marketCapitalization :: "number option"

record MetricData =
  peExclExtraTTM :: "number option"
  peNormalizedAnnual :: "number option"

record FinancialsData =
  metric :: "MetricData option"

text \<open>
  The outside world of one call of \<^verbatim>\<open>getUserWatchlist\<close>: what
  \<^verbatim>\<open>await fetch(url, ...)\<close> followed by \<^verbatim>\<open>await res.json()\<close> gives for a URL of each
  endpoint. \<open>Inl\<close> is a rejection of either promise; \<open>Inr None\<close> is a body that
  parses to \<^verbatim>\<open>null\<close>, which the optional chaining \<^verbatim>\<open>?.\<close> of the code allows for.
\<close>

record upstream =
  fetch_quote :: "string \<Rightarrow> js_error + QuoteData option"
  fetch_profile :: "string \<Rightarrow> js_error + ProfileData option"
  fetch_financials :: "string \<Rightarrow> js_error + FinancialsData option"

section \<open>Enrichment of one watchlist item\<close>

definition FINNHUB_BASE_URL :: string where
  "FINNHUB_BASE_URL = ''https://finnhub.io/api/v1''"

definition quoteUrl :: "string \<Rightarrow> string \<Rightarrow> string" where
  "quoteUrl token ticker = FINNHUB_BASE_URL @ ''/quote?symbol='' @ ticker @ ''&token='' @ token"

definition profileUrl :: "string \<Rightarrow> string \<Rightarrow> string" where
  "profileUrl token ticker = FINNHUB_BASE_URL @ ''/stock/profile2?symbol='' @ ticker @ ''&token='' @ token"

definition financialsUrl :: "string \<Rightarrow> string \<Rightarrow> string" where
  "financialsUrl token ticker =
     FINNHUB_BASE_URL @ ''/stock/metric?symbol='' @ ticker @ ''&metric=all&token='' @ token"

text \<open>The object literal both degraded paths return: the stored fields only.\<close>

definition basic :: "watchlist_item \<Rightarrow> StockWithData" where
  "basic item =
     \<lparr>userId = userId item, symbol = symbol item, company = company item,
      addedAt = addedAt item,
      currentPrice = None, changePercent = None, priceFormatted = None,
      changeFormatted = None, marketCap = None, peRatio = None\<rparr>"

text \<open>The four values read from the bodies (lines 72 to 75).\<close>

definition currentPrice_of :: "QuoteData option \<Rightarrow> number option" where
  "currentPrice_of quoteData = Option.bind quoteData quote_c"

definition changePercent_of :: "QuoteData option \<Rightarrow> number option" where
  "changePercent_of quoteData = Option.bind quoteData quote_dp"

definition marketCapValue_of :: "ProfileData option \<Rightarrow> number option" where
  "marketCapValue_of profileData = Option.bind profileData marketCapitalization"

definition peRatioValue_of :: "FinancialsData option \<Rightarrow> number option" where
  "peRatioValue_of financialsData =
     or_else (Option.bind (Option.bind financialsData metric) peExclExtraTTM)
             (Option.bind (Option.bind financialsData metric) peNormalizedAnnual)"

text \<open>The four formatted strings (lines 84 to 95).\<close>

definition format_price :: "number \<Rightarrow> string" where
  "format_price price = ''$'' @ toFixed 2 price"

definition format_change :: "number \<Rightarrow> string" where
  "format_change change =
     (if greater_than change 0 then ''+'' else '''') @ toFixed 2 change @ ''%''"

definition format_marketCap :: "number \<Rightarrow> string" where
  "format_marketCap marketCapValue =
     (if at_least marketCapValue 1000 then ''$'' @ toFixed 2 (div_1e3 marketCapValue) @ ''T''
      else if at_least marketCapValue 1 then ''$'' @ toFixed 2 marketCapValue @ ''B''
      else ''$'' @ toFixed 2 (mul_1e3 marketCapValue) @ ''M'')"

definition format_pe :: "number \<Rightarrow> string" where
  "format_pe peRatioValue = toFixed 2 peRatioValue"

text \<open>The object literal of the successful path (lines 77 to 96).\<close>

definition enriched ::
  "watchlist_item \<Rightarrow> QuoteData option \<Rightarrow> ProfileData option \<Rightarrow> FinancialsData option
     \<Rightarrow> StockWithData" where
  "enriched item quoteData profileData financialsData =
     \<lparr>userId = userId item, symbol = symbol item, company = company item,
      addedAt = addedAt item,
      currentPrice = currentPrice_of quoteData,
      changePercent = changePercent_of quoteData,
      priceFormatted = when_truthy (currentPrice_of quoteData) format_price,
      changeFormatted = when_truthy (changePercent_of quoteData) format_change,
      marketCap = when_truthy (marketCapValue_of profileData) format_marketCap,
      peRatio = when_truthy (peRatioValue_of financialsData) format_pe\<rparr>"

text \<open>
  The \<^verbatim>\<open>try\<close> block of the callback of \<^verbatim>\<open>items.map\<close> (lines 57 to 96). The three
  requests are awaited one after the other, so a request is issued only when the
  one before it has returned. The first component is the list of the URLs requested,
  in the order of the requests.
\<close>

definition enrich_try :: "upstream \<Rightarrow> string \<Rightarrow> watchlist_item \<Rightarrow> string list \<times> (js_error + StockWithData)" where
  "enrich_try up token item =
     (case fetch_quote up (quoteUrl token (symbol item)) of
        Inl e \<Rightarrow> ([quoteUrl token (symbol item)], Inl e)
      | Inr quoteData \<Rightarrow>
          (case fetch_profile up (profileUrl token (symbol item)) of
             Inl e \<Rightarrow> ([quoteUrl token (symbol item), profileUrl token (symbol item)], Inl e)
           | Inr profileData \<Rightarrow>
               (case fetch_financials up (financialsUrl token (symbol item)) of
                  Inl e \<Rightarrow>
                    ([quoteUrl token (symbol item), profileUrl token (symbol item),
                      financialsUrl token (symbol item)], Inl e)
                | Inr financialsData \<Rightarrow>
                    ([quoteUrl token (symbol item), profileUrl token (symbol item),
                      financialsUrl token (symbol item)],
                     Inr (enriched item quoteData profileData financialsData)))))"

text \<open>The callback with its \<^verbatim>\<open>catch\<close> (lines 97 to 106): any failure gives the basic
  object, so the callback's promise always fulfils.\<close>

definition enrich_item :: "upstream \<Rightarrow> string \<Rightarrow> watchlist_item \<Rightarrow> string list \<times> StockWithData" where
  "enrich_item up token item =
     (case enrich_try up token item of
        (reqs, Inl e) \<Rightarrow> (reqs, basic item)
      | (reqs, Inr stock) \<Rightarrow> (reqs, stock))"

section \<open>The watchlist store\<close>

text \<open>The store calls an action issues, recorded in order.\<close>

datatype store_op =
    Connect
  | FindUser string
  | Find string
  | Create string string string
  | DeleteOne string string

text \<open>
  The conditions of one call that the actions do not control: for each store call,
  whether it rejects for a reason of the store's own (no connection, timeout) and
  with which error; whether \<^verbatim>\<open>mongoose.connection.db\<close> is defined; and the time
  \<^verbatim>\<open>Date.now()\<close> of the call.
\<close>

record store_env =
  fails :: "store_op \<Rightarrow> js_error option"
  db_present :: bool
  clock :: int

text \<open>
  What a run of an action leaves behind: the outcome of its promise (\<open>Inr\<close> fulfilled,
  \<open>Inl\<close> rejected), the store calls it issued, the watchlist collection afterwards,
  and, for each item it enriched, the URLs it requested upstream.
\<close>

record 'a run =
  returned :: "js_error + 'a"
  store_ops :: "store_op list"
  store_after :: "watchlist_item list"
  requests :: "string list list"

text \<open>
  Modelled from the spec: \<^verbatim>\<open>connectToDatabase\<close> (\<^verbatim>\<open>@/database/mongoose\<close>) is not among
  the sources. The spec has it as the process-wide connection, established on
  first use, whose failure the actions catch: the call resolves or rejects.
\<close>

definition connectToDatabase :: "store_env \<Rightarrow> js_error + unit" where
  "connectToDatabase db = (case fails db Connect of Some e \<Rightarrow> Inl e | None \<Rightarrow> Inr ())"

text \<open>
  The Mongoose model \<^verbatim>\<open>Watchlist\<close> (\<^verbatim>\<open>@/database/models/watchlist.model\<close>) is not
  among the sources. The spec gives the store three operations: filtered find with
  sort, insert with a uniqueness constraint on the pair (userId, symbol) whose
  violation is surfaced as a distinguishable error code, and delete by filter
  returning the affected count. The collection is the list of its documents in
  insertion order.
\<close>

text \<open>Modelled from the spec: the error code of a uniqueness violation, absent with
  the model; it is MongoDB's duplicate-key code, the one \<^verbatim>\<open>addToWatchlist\<close> tests
  for.\<close>

definition DUPLICATE_KEY :: int where
  "DUPLICATE_KEY = 11000"

text \<open>\<^verbatim>\<open>.sort({ addedAt: -1 })\<close>. Documents with the same \<open>addedAt\<close> keep the order
  they have in the collection; the store promises no order among them, and no
  statement below depends on it.\<close>

definition sort_addedAt_desc :: "watchlist_item list \<Rightarrow> watchlist_item list" where
  "sort_addedAt_desc found = sort_key (\<lambda>d. - addedAt d) found"

text \<open>Modelled from the spec: \<^verbatim>\<open>Watchlist.find({ userId })\<close> of the absent model, the
  filtered find.\<close>

definition Watchlist_find :: "store_env \<Rightarrow> watchlist_item list \<Rightarrow> string \<Rightarrow> js_error + watchlist_item list" where
  "Watchlist_find db docs uid =
     (case fails db (Find uid) of
        Some e \<Rightarrow> Inl e
      | None \<Rightarrow> Inr (filter (\<lambda>d. userId d = uid) docs))"

text \<open>\<^verbatim>\<open>Watchlist.find({ userId }).sort({ addedAt: -1 }).lean()\<close>, one query.\<close>

definition Watchlist_find_sorted :: "store_env \<Rightarrow> watchlist_item list \<Rightarrow> string \<Rightarrow> js_error + watchlist_item list" where
  "Watchlist_find_sorted db docs uid =
     (case Watchlist_find db docs uid of
        Inl e \<Rightarrow> Inl e
      | Inr found \<Rightarrow> Inr (sort_addedAt_desc found))"

text \<open>Whether the collection holds a document with the pair.\<close>

definition has_pair :: "watchlist_item list \<Rightarrow> string \<Rightarrow> string \<Rightarrow> bool" where
  "has_pair docs uid ticker = list_ex (\<lambda>d. userId d = uid \<and> symbol d = ticker) docs"

text \<open>Modelled from the spec: \<^verbatim>\<open>Watchlist.create\<close> of the absent model, the insert
  with the uniqueness constraint on (userId, symbol). The new document gets the
  time of the call as \<open>addedAt\<close>.\<close>

definition Watchlist_create ::
  "store_env \<Rightarrow> watchlist_item list \<Rightarrow> string \<Rightarrow> string \<Rightarrow> string \<Rightarrow> js_error + watchlist_item list" where
  "Watchlist_create db docs uid ticker name =
     (case fails db (Create uid ticker name) of
        Some e \<Rightarrow> Inl e
      | None \<Rightarrow>
          if has_pair docs uid ticker then Inl (Thrown (Some DUPLICATE_KEY))
          else Inr (docs @ [\<lparr>userId = uid, symbol = ticker, company = name, addedAt = clock db\<rparr>]))"

text \<open>Deleting the first element that satisfies a predicate, with the number of
  elements deleted.\<close>

fun delete_first :: "('a \<Rightarrow> bool) \<Rightarrow> 'a list \<Rightarrow> nat \<times> 'a list" where
  "delete_first P [] = (0, [])"
| "delete_first P (d # ds) =
     (if P d then (1, ds) else (case delete_first P ds of (n, ds') \<Rightarrow> (n, d # ds')))"

text \<open>Modelled from the spec: \<^verbatim>\<open>Watchlist.deleteOne\<close> of the absent model, the delete
  by filter that returns the affected count; it deletes the first document that
  matches, if there is one.\<close>

definition Watchlist_deleteOne ::
  "store_env \<Rightarrow> watchlist_item list \<Rightarrow> string \<Rightarrow> string \<Rightarrow> js_error + nat \<times> watchlist_item list" where
  "Watchlist_deleteOne db docs uid ticker =
     (case fails db (DeleteOne uid ticker) of
        Some e \<Rightarrow> Inl e
      | None \<Rightarrow> Inr (delete_first (\<lambda>d. userId d = uid \<and> symbol d = ticker) docs))"

text \<open>The data-model invariant of the collection: no two documents with the same
  (userId, symbol).\<close>

definition unique_pairs :: "watchlist_item list \<Rightarrow> bool" where
  "unique_pairs docs = distinct (map (\<lambda>d. (userId d, symbol d)) docs)"

text \<open>
  \<^verbatim>\<open>String.prototype.toUpperCase\<close> on ASCII strings, which ticker symbols are: the
  letters a to z are mapped, every other ASCII character is left as it is. Letters
  outside ASCII, which JavaScript maps as well, have no counterpart here.
\<close>

definition upper_char :: "char \<Rightarrow> char" where
  "upper_char ch =
     (case map_of (zip ''abcdefghijklmnopqrstuvwxyz'' ''ABCDEFGHIJKLMNOPQRSTUVWXYZ'') ch of
        Some u \<Rightarrow> u
      | None \<Rightarrow> ch)"

definition toUpperCase :: "string \<Rightarrow> string" where
  "toUpperCase s = map upper_char s"

section \<open>The server actions\<close>

text \<open>\<^verbatim>\<open>process.env\<close>: the two variables \<^verbatim>\<open>getUserWatchlist\<close> reads.\<close>

record process_env =
  FINNHUB_API_KEY :: "string option"
  NEXT_PUBLIC_FINNHUB_API_KEY :: "string option"

text \<open>The \<^verbatim>\<open>try\<close> block of \<^verbatim>\<open>getUserWatchlist\<close> (lines 34 to 110).\<close>

definition getUserWatchlist_try ::
  "store_env \<Rightarrow> process_env \<Rightarrow> upstream \<Rightarrow> watchlist_item list \<Rightarrow> string
     \<Rightarrow> StockWithData list run" where
  "getUserWatchlist_try db env up docs uid =
     (case connectToDatabase db of
        Inl e \<Rightarrow>
          \<lparr>returned = Inl e, store_ops = [Connect], store_after = docs, requests = []\<rparr>
      | Inr _ \<Rightarrow>
          (case Watchlist_find_sorted db docs uid of
             Inl e \<Rightarrow>
               \<lparr>returned = Inl e, store_ops = [Connect, Find uid], store_after = docs,
                requests = []\<rparr>
           | Inr found \<Rightarrow>
               (case nullish (FINNHUB_API_KEY env) (NEXT_PUBLIC_FINNHUB_API_KEY env) of
                  None \<Rightarrow>
                    \<lparr>returned = Inr (map basic found), store_ops = [Connect, Find uid],
                     store_after = docs, requests = []\<rparr>
                | Some token \<Rightarrow>
                    if token = [] then
                      \<lparr>returned = Inr (map basic found), store_ops = [Connect, Find uid],
                       store_after = docs, requests = []\<rparr>
                    else
                      (let stocksWithData = map (enrich_item up token) found
                       in \<lparr>returned = Inr (map snd stocksWithData),
                           store_ops = [Connect, Find uid], store_after = docs,
                           requests = map fst stocksWithData\<rparr>))))"

text \<open>\<^verbatim>\<open>getUserWatchlist\<close>: the guard on the user id, the \<^verbatim>\<open>try\<close> block, and the
  \<^verbatim>\<open>catch\<close> that returns the empty list.\<close>

definition getUserWatchlist ::
  "store_env \<Rightarrow> process_env \<Rightarrow> upstream \<Rightarrow> watchlist_item list \<Rightarrow> string
     \<Rightarrow> StockWithData list run" where
  "getUserWatchlist db env up docs uid =
     (if uid = [] then
        \<lparr>returned = Inr [], store_ops = [], store_after = docs, requests = []\<rparr>
      else
        (let r = getUserWatchlist_try db env up docs uid
         in case returned r of
              Inl err \<Rightarrow> r\<lparr>returned := Inr []\<rparr>
            | Inr stocks \<Rightarrow> r))"

record action_result =
  success :: bool
  message :: string

definition addToWatchlist_try ::
  "store_env \<Rightarrow> watchlist_item list \<Rightarrow> string \<Rightarrow> string \<Rightarrow> string \<Rightarrow> action_result run" where
  "addToWatchlist_try db docs uid ticker name =
     (case connectToDatabase db of
        Inl e \<Rightarrow>
          \<lparr>returned = Inl e, store_ops = [Connect], store_after = docs, requests = []\<rparr>
      | Inr _ \<Rightarrow>
          (case Watchlist_create db docs uid (toUpperCase ticker) name of
             Inl e \<Rightarrow>
               \<lparr>returned = Inl e,
                store_ops = [Connect, Create uid (toUpperCase ticker) name],
                store_after = docs, requests = []\<rparr>
           | Inr docs' \<Rightarrow>
               \<lparr>returned = Inr \<lparr>success = True, message = ''Added to watchlist''\<rparr>,
                store_ops = [Connect, Create uid (toUpperCase ticker) name],
                store_after = docs', requests = []\<rparr>))"

definition addToWatchlist ::
  "store_env \<Rightarrow> watchlist_item list \<Rightarrow> string \<Rightarrow> string \<Rightarrow> string \<Rightarrow> action_result run" where
  "addToWatchlist db docs uid ticker name =
     (if uid = [] \<or> ticker = [] \<or> name = [] then
        \<lparr>returned = Inr \<lparr>success = False, message = ''Missing required fields''\<rparr>,
         store_ops = [], store_after = docs, requests = []\<rparr>
      else
        (let r = addToWatchlist_try db docs uid ticker name
         in case returned r of
              Inl err \<Rightarrow>
                if err_code err = Some 11000
                then r\<lparr>returned := Inr \<lparr>success = False, message = ''Stock already in watchlist''\<rparr>\<rparr>
                else r\<lparr>returned := Inr \<lparr>success = False, message = ''Failed to add to watchlist''\<rparr>\<rparr>
            | Inr res \<Rightarrow> r))"

definition removeFromWatchlist_try ::
  "store_env \<Rightarrow> watchlist_item list \<Rightarrow> string \<Rightarrow> string \<Rightarrow> action_result run" where
  "removeFromWatchlist_try db docs uid ticker =
     (case connectToDatabase db of
        Inl e \<Rightarrow>
          \<lparr>returned = Inl e, store_ops = [Connect], store_after = docs, requests = []\<rparr>
      | Inr _ \<Rightarrow>
          (case Watchlist_deleteOne db docs uid (toUpperCase ticker) of
             Inl e \<Rightarrow>
               \<lparr>returned = Inl e, store_ops = [Connect, DeleteOne uid (toUpperCase ticker)],
                store_after = docs, requests = []\<rparr>
           | Inr (deletedCount, docs') \<Rightarrow>
               if deletedCount = 0 then
                 \<lparr>returned = Inr \<lparr>success = False, message = ''Stock not found in watchlist''\<rparr>,
                  store_ops = [Connect, DeleteOne uid (toUpperCase ticker)],
                  store_after = docs', requests = []\<rparr>
               else
                 \<lparr>returned = Inr \<lparr>success = True, message = ''Removed from watchlist''\<rparr>,
                  store_ops = [Connect, DeleteOne uid (toUpperCase ticker)],
                  store_after = docs', requests = []\<rparr>))"

definition removeFromWatchlist ::
  "store_env \<Rightarrow> watchlist_item list \<Rightarrow> string \<Rightarrow> string \<Rightarrow> action_result run" where
  "removeFromWatchlist db docs uid ticker =
     (if uid = [] \<or> ticker = [] then
        \<lparr>returned = Inr \<lparr>success = False, message = ''Missing required fields''\<rparr>,
         store_ops = [], store_after = docs, requests = []\<rparr>
      else
        (let r = removeFromWatchlist_try db docs uid ticker
         in case returned r of
              Inl err \<Rightarrow>
                r\<lparr>returned := Inr \<lparr>success = False, message = ''Failed to remove from watchlist''\<rparr>\<rparr>
            | Inr res \<Rightarrow> r))"

text \<open>
  A document of Better Auth's \<^verbatim>\<open>user\<close> collection, as \<^verbatim>\<open>getWatchlistSymbolsByEmail\<close>
  types it: \<^verbatim>\<open>{ _id?: unknown; id?: string; email?: string }\<close>. \<open>user_oid\<close> is
  \<^verbatim>\<open>String(_id)\<close> of a present \<^verbatim>\<open>_id\<close>.
\<close>

record user_doc =
  user_oid :: "string option"
  user_id :: "string option"
  user_email :: "string option"

text \<open>Modelled from the spec: the identity store, queried by exact match of the
  email; the collection belongs to Better Auth and is not among the sources.\<close>

definition findOne_user :: "store_env \<Rightarrow> user_doc list \<Rightarrow> string \<Rightarrow> js_error + user_doc option" where
  "findOne_user db users email =
     (case fails db (FindUser email) of
        Some e \<Rightarrow> Inl e
      | None \<Rightarrow> Inr (find (\<lambda>u. user_email u = Some email) users))"

text \<open>\<^verbatim>\<open>(user.id as string) || String(user._id || "")\<close>.\<close>

definition userId_of :: "user_doc \<Rightarrow> string" where
  "userId_of user =
     (let fallback = (case user_oid user of None \<Rightarrow> [] | Some oid \<Rightarrow> oid)
      in case user_id user of
           None \<Rightarrow> fallback
         | Some i \<Rightarrow> if i \<noteq> [] then i else fallback)"

definition getWatchlistSymbolsByEmail_try ::
  "store_env \<Rightarrow> user_doc list \<Rightarrow> watchlist_item list \<Rightarrow> string \<Rightarrow> string list run" where
  "getWatchlistSymbolsByEmail_try db users docs email =
     (case connectToDatabase db of
        Inl e \<Rightarrow>
          \<lparr>returned = Inl e, store_ops = [Connect], store_after = docs, requests = []\<rparr>
      | Inr _ \<Rightarrow>
          if \<not> db_present db then
            \<lparr>returned = Inl (Thrown None), store_ops = [Connect], store_after = docs,
             requests = []\<rparr>
          else
            (case findOne_user db users email of
               Inl e \<Rightarrow>
                 \<lparr>returned = Inl e, store_ops = [Connect, FindUser email], store_after = docs,
                  requests = []\<rparr>
             | Inr None \<Rightarrow>
                 \<lparr>returned = Inr [], store_ops = [Connect, FindUser email], store_after = docs,
                  requests = []\<rparr>
             | Inr (Some user) \<Rightarrow>
                 if userId_of user = [] then
                   \<lparr>returned = Inr [], store_ops = [Connect, FindUser email],
                    store_after = docs, requests = []\<rparr>
                 else
                   (case Watchlist_find db docs (userId_of user) of
                      Inl e \<Rightarrow>
                        \<lparr>returned = Inl e,
                         store_ops = [Connect, FindUser email, Find (userId_of user)],
                         store_after = docs, requests = []\<rparr>
                    | Inr found \<Rightarrow>
                        \<lparr>returned = Inr (map symbol found),
                         store_ops = [Connect, FindUser email, Find (userId_of user)],
                         store_after = docs, requests = []\<rparr>)))"

definition getWatchlistSymbolsByEmail ::
  "store_env \<Rightarrow> user_doc list \<Rightarrow> watchlist_item list \<Rightarrow> string \<Rightarrow> string list run" where
  "getWatchlistSymbolsByEmail db users docs email =
     (if email = [] then
        \<lparr>returned = Inr [], store_ops = [], store_after = docs, requests = []\<rparr>
      else
        (let r = getWatchlistSymbolsByEmail_try db users docs email
         in case returned r of
              Inl err \<Rightarrow> r\<lparr>returned := Inr []\<rparr>
            | Inr symbols \<Rightarrow> r))"

section \<open>The table component\<close>

text \<open>The notifications of \<^verbatim>\<open>sonner\<close> the component raises.\<close>

datatype toast = ToastSuccess string | ToastError string

text \<open>The two pieces of React state of \<^verbatim>\<open>WatchlistTable\<close>.\<close>

record view_state =
  items :: "StockWithData list"
  removing :: "string option"

text \<open>
  \<^verbatim>\<open>handleRemove\<close>. Its first argument is the server action as the client sees it:
  the call \<^verbatim>\<open>await removeFromWatchlist(userId, symbol)\<close> either yields a result or
  throws. The state returned is the one after the \<^verbatim>\<open>finally\<close> block; in between,
  \<open>removing\<close> holds the symbol.
\<close>

definition handleRemove ::
  "(string \<Rightarrow> string \<Rightarrow> js_error + action_result) \<Rightarrow> string \<Rightarrow> view_state \<Rightarrow> string
     \<Rightarrow> view_state \<times> toast" where
  "handleRemove remove uid st ticker =
     (case remove uid ticker of
        Inr result \<Rightarrow>
          if success result then
            (st\<lparr>items := filter (\<lambda>item. symbol item \<noteq> ticker) (items st), removing := None\<rparr>,
             ToastSuccess ''Removed from watchlist'')
          else
            (st\<lparr>removing := None\<rparr>,
             ToastError (if message result \<noteq> [] then message result else ''Failed to remove''))
      | Inl error \<Rightarrow> (st\<lparr>removing := None\<rparr>, ToastError ''An error occurred''))"

section \<open>Sequences of writes\<close>

text \<open>A call of one of the two writing actions, with the conditions of the store at
  the time of the call, and the collection after a sequence of such calls.\<close>

datatype write_call =
    Add store_env string string string
  | Remove store_env string string

fun apply_call :: "watchlist_item list \<Rightarrow> write_call \<Rightarrow> watchlist_item list" where
  "apply_call docs (Add db uid ticker name) = store_after (addToWatchlist db docs uid ticker name)"
| "apply_call docs (Remove db uid ticker) = store_after (removeFromWatchlist db docs uid ticker)"

definition after_calls :: "watchlist_item list \<Rightarrow> write_call list \<Rightarrow> watchlist_item list" where
  "after_calls docs calls = foldl apply_call docs calls"

section \<open>Concrete inputs\<close>

text \<open>Two entries of one user, a store that answers and one that is down, the two
  credential settings, and a market-data service that answers every request, once
  entirely, once with the quote request for MSFT failing, once with every number
  zero, once with a market capitalization and a \<^verbatim>\<open>peExclExtraTTM\<close> of zero beside a
  \<^verbatim>\<open>peNormalizedAnnual\<close> of 14, and once the same without a market capitalization.\<close>

definition aapl :: watchlist_item where
  "aapl = \<lparr>userId = ''u1'', symbol = ''AAPL'', company = ''Apple Inc'', addedAt = 1000\<rparr>"

definition msft :: watchlist_item where
  "msft = \<lparr>userId = ''u1'', symbol = ''MSFT'', company = ''Microsoft'', addedAt = 2000\<rparr>"

definition store_up :: store_env where
  "store_up = \<lparr>fails = (\<lambda>call. None), db_present = True, clock = 3000\<rparr>"

definition store_down :: store_env where
  "store_down = \<lparr>fails = (\<lambda>call. Some (Thrown None)), db_present = True, clock = 3000\<rparr>"

definition env_key :: process_env where
  "env_key = \<lparr>FINNHUB_API_KEY = Some ''k'', NEXT_PUBLIC_FINNHUB_API_KEY = None\<rparr>"

definition env_no_key :: process_env where
  "env_no_key = \<lparr>FINNHUB_API_KEY = None, NEXT_PUBLIC_FINNHUB_API_KEY = None\<rparr>"

definition market :: upstream where
  "market =
     \<lparr>fetch_quote =
        (\<lambda>url. Inr (Some \<lparr>quote_c = Some (Num (1234 / 10)), quote_dp = Some (Num (5 / 2))\<rparr>)),
      fetch_profile = (\<lambda>url. Inr (Some \<lparr>marketCapitalization = Some (Num 2500)\<rparr>)),
      fetch_financials =
        (\<lambda>url. Inr (Some \<lparr>metric = Some \<lparr>peExclExtraTTM = Some (Num (61 / 4)),
                                           peNormalizedAnnual = Some (Num 14)\<rparr>\<rparr>))\<rparr>"

definition market_msft_down :: upstream where
  "market_msft_down =
     market\<lparr>fetch_quote :=
       (\<lambda>url. if url = quoteUrl ''k'' ''MSFT'' then Inl (Thrown None) else fetch_quote market url)\<rparr>"

definition market_zero :: upstream where
  "market_zero =
     \<lparr>fetch_quote = (\<lambda>url. Inr (Some \<lparr>quote_c = Some (Num 0), quote_dp = Some (Num 0)\<rparr>)),
      fetch_profile = (\<lambda>url. Inr (Some \<lparr>marketCapitalization = Some (Num 0)\<rparr>)),
      fetch_financials =
        (\<lambda>url. Inr (Some \<lparr>metric = Some \<lparr>peExclExtraTTM = Some (Num 0),
                                           peNormalizedAnnual = Some (Num 0)\<rparr>\<rparr>))\<rparr>"

definition market_pe_zero :: upstream where
  "market_pe_zero =
     market\<lparr>fetch_profile := (\<lambda>url. Inr (Some \<lparr>marketCapitalization = Some (Num 0)\<rparr>)),
            fetch_financials :=
              (\<lambda>url. Inr (Some \<lparr>metric = Some \<lparr>peExclExtraTTM = Some (Num 0),
                                                 peNormalizedAnnual = Some (Num 14)\<rparr>\<rparr>))\<rparr>"

definition market_no_cap :: upstream where
  "market_no_cap =
     market_pe_zero\<lparr>fetch_profile := (\<lambda>url. Inr (Some \<lparr>marketCapitalization = None\<rparr>))\<rparr>"

section \<open>Number formatting\<close>

lemma floor_rat_numeral: "\<lfloor>numeral a / numeral b :: rat\<rfloor> = numeral a div numeral b"
  using floor_divide_of_int_eq [of "numeral a" "numeral b", where ?'a = rat] by simp

lemma ceiling_rat_numeral: "\<lceil>numeral a / numeral b :: rat\<rceil> = - (- numeral a div numeral b)"
  using floor_divide_of_int_eq [of "- numeral a" "numeral b", where ?'a = rat]
  by (simp add: ceiling_def)

lemma bit_length_zero: "bit_length 0 = 0"
  by (subst bit_length.simps) simp

lemma bit_length_pos: "0 < n \<Longrightarrow> bit_length n = Suc (bit_length (n div 2))"
  by (subst bit_length.simps) simp

lemma digits_small: "n < 10 \<Longrightarrow> digits n = [digit_char n]"
  by (subst digits.simps) simp

lemma digits_big: "10 \<le> n \<Longrightarrow> digits n = digits (n div 10) @ [digit_char (n mod 10)]"
  by (subst digits.simps) simp





lemmas double_eval = div_1e3_def mul_1e3_def round_double_def round_half_even_def binade_def
  pow2_def bit_length_zero bit_length_pos Let_def floor_rat_numeral ceiling_rat_numeral

lemmas fmt_eval = toFixed_def digits_small digits_big digit_char_def Let_def floor_rat_numeral
  format_price_def format_change_def format_marketCap_def format_pe_def
  greater_than_def at_least_def



lemma div_1e3_1005: "div_1e3 (Num 1005) = Num (1131529406376837 / 1125899906842624)"
  by (simp add: double_eval)



text \<open>Rounding to a double at a tie goes to the even neighbour, for either sign;
  and the double nearest to one tenth.\<close>

lemma round_double_ties:
  "round_double (1 + 1 / 2 ^ 53) = Num 1"
  "round_double (1 + 3 / 2 ^ 53) = Num (1 + 1 / 2 ^ 51)"
  "round_double (- (1 + 3 / 2 ^ 53)) = Num (- (1 + 1 / 2 ^ 51))"
  "round_double (1 / 10) = Num (3602879701896397 / 36028797018963968)"
  by (simp_all add: double_eval)

text \<open>\<^verbatim>\<open>toFixed\<close> at a tie takes the larger digit string, keeps the sign of a
  negative value that rounds to zero, and pads an integer.\<close>

lemma toFixed_ties:
  "toFixed 2 (Num (1 / 8)) = ''0.13''"
  "toFixed 2 (Num (- 1 / 8)) = ''-0.13''"
  "toFixed 2 (Num (- 1 / 1000)) = ''-0.00''"
  "toFixed 2 (Num 7) = ''7.00''"
  "toFixed 0 (Num (5 / 2)) = ''3''"
  by (simp_all add: fmt_eval)

section \<open>The paths of the list action\<close>

lemma enrich_item_cases:
  "enrich_item up token item =
     (if isl (fetch_quote up (quoteUrl token (symbol item)))
      then ([quoteUrl token (symbol item)], basic item)
      else if isl (fetch_profile up (profileUrl token (symbol item)))
      then ([quoteUrl token (symbol item), profileUrl token (symbol item)], basic item)
      else if isl (fetch_financials up (financialsUrl token (symbol item)))
      then ([quoteUrl token (symbol item), profileUrl token (symbol item),
             financialsUrl token (symbol item)], basic item)
      else ([quoteUrl token (symbol item), profileUrl token (symbol item),
             financialsUrl token (symbol item)],
            enriched item (projr (fetch_quote up (quoteUrl token (symbol item))))
                          (projr (fetch_profile up (profileUrl token (symbol item))))
                          (projr (fetch_financials up (financialsUrl token (symbol item))))))"
  by (simp add: enrich_item_def enrich_try_def split: sum.splits)

lemma truncate_basic: "watchlist_item.truncate (basic item) = item"
  by (simp add: basic_def watchlist_item.truncate_def)

lemma truncate_enriched: "watchlist_item.truncate (enriched item q p f) = item"
  by (simp add: enriched_def watchlist_item.truncate_def)

lemma truncate_enrich_item: "watchlist_item.truncate (snd (enrich_item up token item)) = item"
  by (simp add: enrich_item_cases truncate_basic truncate_enriched)

lemma map_truncate_enrich:
  "map watchlist_item.truncate (map snd (map (enrich_item up token) found)) = found"
  by (simp add: comp_def truncate_enrich_item)

text \<open>The three ways the function ends when the user id is not empty.\<close>

lemma getUserWatchlist_store_failure:
  assumes "uid \<noteq> []" and "fails db Connect \<noteq> None \<or> fails db (Find uid) \<noteq> None"
  shows "getUserWatchlist db env up docs uid =
           \<lparr>returned = Inr [],
            store_ops = (if fails db Connect \<noteq> None then [Connect] else [Connect, Find uid]),
            store_after = docs, requests = []\<rparr>"
  using assms
  by (auto simp: getUserWatchlist_def getUserWatchlist_try_def connectToDatabase_def
      Watchlist_find_sorted_def Watchlist_find_def Let_def split: option.splits)

lemma getUserWatchlist_no_token:
  assumes "uid \<noteq> []" and "fails db Connect = None" and "fails db (Find uid) = None"
    and "falsy_str (nullish (FINNHUB_API_KEY env) (NEXT_PUBLIC_FINNHUB_API_KEY env))"
  shows "getUserWatchlist db env up docs uid =
           \<lparr>returned = Inr (map basic (sort_addedAt_desc (filter (\<lambda>d. userId d = uid) docs))),
            store_ops = [Connect, Find uid], store_after = docs, requests = []\<rparr>"
  using assms
  by (auto simp: getUserWatchlist_def getUserWatchlist_try_def connectToDatabase_def
      Watchlist_find_sorted_def Watchlist_find_def Let_def falsy_str_def split: option.splits)

lemma getUserWatchlist_token:
  assumes "uid \<noteq> []" and "fails db Connect = None" and "fails db (Find uid) = None"
    and "nullish (FINNHUB_API_KEY env) (NEXT_PUBLIC_FINNHUB_API_KEY env) = Some token"
    and "token \<noteq> []"
  shows "getUserWatchlist db env up docs uid =
           \<lparr>returned = Inr (map snd (map (enrich_item up token)
                         (sort_addedAt_desc (filter (\<lambda>d. userId d = uid) docs)))),
            store_ops = [Connect, Find uid], store_after = docs,
            requests = map fst (map (enrich_item up token)
                         (sort_addedAt_desc (filter (\<lambda>d. userId d = uid) docs)))\<rparr>"
  using assms
  by (simp add: getUserWatchlist_def getUserWatchlist_try_def connectToDatabase_def
      Watchlist_find_sorted_def Watchlist_find_def Let_def)

lemma getUserWatchlist_empty_uid:
  "getUserWatchlist db env up docs [] =
     \<lparr>returned = Inr [], store_ops = [], store_after = docs, requests = []\<rparr>"
  by (simp add: getUserWatchlist_def)

text \<open>Whatever happens, the list returned holds the user's stored entries in
  sorted order, or is empty.\<close>

lemma getUserWatchlist_returned:
  "\<exists>r. returned (getUserWatchlist db env up docs uid) = Inr r \<and>
       (r = [] \<or> map watchlist_item.truncate r
                   = sort_addedAt_desc (filter (\<lambda>d. userId d = uid) docs))"
proof (cases "uid = []")
  case True
  then show ?thesis by (simp add: getUserWatchlist_empty_uid)
next
  case uid: False
  show ?thesis
  proof (cases "fails db Connect \<noteq> None \<or> fails db (Find uid) \<noteq> None")
    case True
    then show ?thesis using getUserWatchlist_store_failure [OF uid True] by simp
  next
    case False
    then have ok: "fails db Connect = None" "fails db (Find uid) = None" by simp_all
    show ?thesis
    proof (cases "falsy_str (nullish (FINNHUB_API_KEY env) (NEXT_PUBLIC_FINNHUB_API_KEY env))")
      case True
      then show ?thesis
        using getUserWatchlist_no_token [OF uid ok True] by (simp add: comp_def truncate_basic)
    next
      case False
      then obtain token where
        "nullish (FINNHUB_API_KEY env) (NEXT_PUBLIC_FINNHUB_API_KEY env) = Some token" "token \<noteq> []"
        by (auto simp: falsy_str_def split: option.splits)
      then show ?thesis
        using getUserWatchlist_token [OF uid ok] by (simp add: comp_def truncate_enrich_item)
    qed
  qed
qed

section \<open>Ordering of the list\<close>

lemma sorted_sort_addedAt_desc:
  "sorted_wrt (\<lambda>x y. addedAt y \<le> addedAt x) (sort_addedAt_desc found)"
proof -
  have "sorted (map (\<lambda>d. - addedAt d) (sort_key (\<lambda>d. - addedAt d) found))"
    by (rule sorted_sort_key)
  then show ?thesis
    by (simp add: sort_addedAt_desc_def sorted_map)
qed

lemma set_sort_addedAt_desc: "set (sort_addedAt_desc found) = set found"
  by (simp add: sort_addedAt_desc_def)

lemma length_sort_addedAt_desc: "length (sort_addedAt_desc found) = length found"
  by (simp add: sort_addedAt_desc_def)

lemma later_first:
  assumes srt: "sorted_wrt (\<lambda>x y. addedAt y \<le> addedAt x) entries"
    and a: "a \<in> set entries" and b: "b \<in> set entries" and lt: "addedAt a < addedAt b"
  shows "\<exists>i j. i < j \<and> j < length entries \<and> entries ! i = b \<and> entries ! j = a"
proof -
  from a obtain j where j: "j < length entries" "entries ! j = a"
    by (auto simp: in_set_conv_nth)
  from b obtain i where i: "i < length entries" "entries ! i = b"
    by (auto simp: in_set_conv_nth)
  have "i \<noteq> j" using i j lt by auto
  moreover have "\<not> j < i"
  proof
    assume "j < i"
    with srt i(1) have "addedAt (entries ! i) \<le> addedAt (entries ! j)"
      unfolding sorted_wrt_iff_nth_less by blast
    with i j lt show False by simp
  qed
  ultimately have "i < j" by simp
  with i j show ?thesis by blast
qed

lemma addedAt_truncate: "addedAt (watchlist_item.truncate r) = addedAt r"
  by (simp add: watchlist_item.truncate_def)

text \<open>
  Claim C4. For every user id the list action returns a list that is ordered by
  \<open>addedAt\<close>, most recent first. When the store answers, it holds exactly the
  user's entries (each extended by the live fields, in the order of the sorted
  query), so enrichment keeps the order, and of two entries of the user the one
  added later comes first.
\<close>

theorem list_most_recent_first:
  "\<exists>r. returned (getUserWatchlist db env up docs uid) = Inr r \<and>
       sorted_wrt (\<lambda>x y. addedAt y \<le> addedAt x) r \<and>
       (uid \<noteq> [] \<and> fails db Connect = None \<and> fails db (Find uid) = None \<longrightarrow>
          map watchlist_item.truncate r = sort_addedAt_desc (filter (\<lambda>d. userId d = uid) docs) \<and>
          set (map watchlist_item.truncate r) = {d \<in> set docs. userId d = uid} \<and>
          length r = length (filter (\<lambda>d. userId d = uid) docs) \<and>
          (\<forall>a \<in> set docs. \<forall>b \<in> set docs.
             userId a = uid \<and> userId b = uid \<and> addedAt a < addedAt b \<longrightarrow>
             (\<exists>i j. i < j \<and> j < length r \<and>
                    watchlist_item.truncate (r ! i) = b \<and> watchlist_item.truncate (r ! j) = a)))"
  (is "\<exists>r. ?A r \<and> ?S r \<and> (?C \<longrightarrow> ?D r)")
proof -
  define entries where "entries = sort_addedAt_desc (filter (\<lambda>d. userId d = uid) docs)"
  obtain r where r: "?A r"
    and shape: "r = [] \<or> map watchlist_item.truncate r = entries"
    using getUserWatchlist_returned [of db env up docs uid] unfolding entries_def by blast
  have srt_entries: "sorted_wrt (\<lambda>x y. addedAt y \<le> addedAt x) entries"
    unfolding entries_def by (rule sorted_sort_addedAt_desc)
  have srt: "?S r"
  proof (cases "r = []")
    case True
    then show ?thesis by simp
  next
    case False
    with shape have "map watchlist_item.truncate r = entries" by simp
    with srt_entries have "sorted_wrt (\<lambda>x y. addedAt y \<le> addedAt x) (map watchlist_item.truncate r)"
      by simp
    then show ?thesis by (simp add: sorted_wrt_map addedAt_truncate)
  qed
  have ok: "?D r" if c: "?C"
  proof -
    from c have up: "uid \<noteq> []" "fails db Connect = None" "fails db (Find uid) = None"
      by simp_all
    have eq: "map watchlist_item.truncate r = entries"
    proof (cases "falsy_str (nullish (FINNHUB_API_KEY env) (NEXT_PUBLIC_FINNHUB_API_KEY env))")
      case True
      then show ?thesis
        using getUserWatchlist_no_token [OF up True, of up docs] r
        by (auto simp: entries_def comp_def truncate_basic)
    next
      case False
      then obtain token where
        "nullish (FINNHUB_API_KEY env) (NEXT_PUBLIC_FINNHUB_API_KEY env) = Some token" "token \<noteq> []"
        by (auto simp: falsy_str_def split: option.splits)
      then show ?thesis
        using getUserWatchlist_token [OF up, of env token up docs] r
        by (auto simp: entries_def comp_def truncate_enrich_item)
    qed
    have len: "length r = length entries"
      using eq by (metis length_map)
    have set_eq: "set (map watchlist_item.truncate r) = {d \<in> set docs. userId d = uid}"
      unfolding eq entries_def by (auto simp: set_sort_addedAt_desc)
    have order: "\<exists>i j. i < j \<and> j < length r \<and>
                   watchlist_item.truncate (r ! i) = b \<and> watchlist_item.truncate (r ! j) = a"
      if "a \<in> set docs" "b \<in> set docs" "userId a = uid \<and> userId b = uid \<and> addedAt a < addedAt b"
      for a b
    proof -
      have "a \<in> set entries" "b \<in> set entries"
        using that by (simp_all add: entries_def set_sort_addedAt_desc)
      moreover have "addedAt a < addedAt b" using that by simp
      ultimately obtain i j where ij: "i < j" "j < length entries" "entries ! i = b" "entries ! j = a"
        using later_first [OF srt_entries] by blast
      have "i < length r" "j < length r" using ij len by simp_all
      then have "watchlist_item.truncate (r ! i) = map watchlist_item.truncate r ! i"
        "watchlist_item.truncate (r ! j) = map watchlist_item.truncate r ! j"
        by simp_all
      then have "watchlist_item.truncate (r ! i) = b" "watchlist_item.truncate (r ! j) = a"
        using ij unfolding eq by simp_all
      with ij len show ?thesis by auto
    qed
    have len': "length r = length (filter (\<lambda>d. userId d = uid) docs)"
      using len by (simp add: entries_def length_sort_addedAt_desc)
    have eq': "map watchlist_item.truncate r = sort_addedAt_desc (filter (\<lambda>d. userId d = uid) docs)"
      using eq by (simp add: entries_def)
    have order': "\<forall>a \<in> set docs. \<forall>b \<in> set docs.
             userId a = uid \<and> userId b = uid \<and> addedAt a < addedAt b \<longrightarrow>
             (\<exists>i j. i < j \<and> j < length r \<and>
                    watchlist_item.truncate (r ! i) = b \<and> watchlist_item.truncate (r ! j) = a)"
      by (intro ballI impI) (rule order)
    show ?thesis
      by (rule conjI [OF eq' conjI [OF set_eq conjI [OF len' order']]])
  qed
  have imp: "?C \<longrightarrow> ?D r"
    by (rule impI) (rule ok)
  have "?A r \<and> ?S r \<and> (?C \<longrightarrow> ?D r)"
    by (rule conjI [OF r conjI [OF srt imp]])
  then show ?thesis by (rule exI)
qed

text \<open>The example of the claim: AAPL added at 1000 and MSFT added at 2000 are
  listed as MSFT, AAPL.\<close>

theorem list_most_recent_first_example:
  "\<exists>r. returned (getUserWatchlist store_up env_key market [aapl, msft] ''u1'') = Inr r \<and>
       addedAt aapl < addedAt msft \<and> map symbol r = [''MSFT'', ''AAPL'']"
proof -
  have pre: "''u1'' \<noteq> [] \<and> fails store_up Connect = None \<and> fails store_up (Find ''u1'') = None"
    by (simp add: store_up_def)
  obtain r where r: "returned (getUserWatchlist store_up env_key market [aapl, msft] ''u1'') = Inr r"
    and eq: "map watchlist_item.truncate r
             = sort_addedAt_desc (filter (\<lambda>d. userId d = ''u1'') [aapl, msft])"
    using list_most_recent_first [of store_up env_key market "[aapl, msft]" "''u1''"] pre
    by blast
  have "sort_addedAt_desc (filter (\<lambda>d. userId d = ''u1'') [aapl, msft]) = [msft, aapl]"
    by (simp add: sort_addedAt_desc_def aapl_def msft_def)
  with eq have "map symbol (map watchlist_item.truncate r) = map symbol [msft, aapl]"
    by simp
  then have "map symbol r = [''MSFT'', ''AAPL'']"
    by (simp add: comp_def watchlist_item.truncate_def aapl_def msft_def)
  with r show ?thesis by (simp add: aapl_def msft_def)
qed

section \<open>Failure of one symbol\<close>

text \<open>
  Claim C1. The store answers and a credential is configured, so the entries of
  the user are enriched. If at least one of the three requests for the symbol
  \<open>bad\<close> throws while all requests for the other symbols return, the action
  still returns a list: it has one record per entry, in the order of the entries;
  the record of an entry with the symbol \<open>bad\<close> is the basic object (the stored
  fields \<open>userId\<close>, \<open>symbol\<close>, \<open>company\<close> and \<open>addedAt\<close>, every live field
  absent), and the record of any other entry is the enriched object built from
  that entry's own three responses.
\<close>

theorem failing_symbol_degrades_alone:
  assumes uid: "uid \<noteq> []"
    and store: "fails db Connect = None" "fails db (Find uid) = None"
    and key: "nullish (FINNHUB_API_KEY env) (NEXT_PUBLIC_FINNHUB_API_KEY env) = Some token"
      "token \<noteq> []"
    and entries: "entries = sort_addedAt_desc (filter (\<lambda>d. userId d = uid) docs)"
    and bad: "isl (fetch_quote up (quoteUrl token bad)) \<or>
              isl (fetch_profile up (profileUrl token bad)) \<or>
              isl (fetch_financials up (financialsUrl token bad))"
    and good: "\<forall>d \<in> set entries. symbol d \<noteq> bad \<longrightarrow>
                 \<not> isl (fetch_quote up (quoteUrl token (symbol d))) \<and>
                 \<not> isl (fetch_profile up (profileUrl token (symbol d))) \<and>
                 \<not> isl (fetch_financials up (financialsUrl token (symbol d)))"
  shows "\<exists>r. returned (getUserWatchlist db env up docs uid) = Inr r \<and>
             length r = length entries \<and>
             map watchlist_item.truncate r = entries \<and>
             (\<forall>i < length entries.
                r ! i =
                  (if symbol (entries ! i) = bad then basic (entries ! i)
                   else enriched (entries ! i)
                          (projr (fetch_quote up (quoteUrl token (symbol (entries ! i)))))
                          (projr (fetch_profile up (profileUrl token (symbol (entries ! i)))))
                          (projr (fetch_financials up (financialsUrl token (symbol (entries ! i)))))))"
proof -
  define r where "r = map snd (map (enrich_item up token) entries)"
  have ret: "returned (getUserWatchlist db env up docs uid) = Inr r"
    using getUserWatchlist_token [OF uid store key, of up docs] by (simp add: r_def entries)
  have len: "length r = length entries"
    by (simp add: r_def)
  have same: "map watchlist_item.truncate r = entries"
    unfolding r_def by (rule map_truncate_enrich)
  have each: "r ! i =
                  (if symbol (entries ! i) = bad then basic (entries ! i)
                   else enriched (entries ! i)
                          (projr (fetch_quote up (quoteUrl token (symbol (entries ! i)))))
                          (projr (fetch_profile up (profileUrl token (symbol (entries ! i)))))
                          (projr (fetch_financials up (financialsUrl token (symbol (entries ! i))))))"
    if i: "i < length entries" for i
  proof -
    have ri: "r ! i = snd (enrich_item up token (entries ! i))"
      using i by (simp add: r_def)
    show ?thesis
    proof (cases "symbol (entries ! i) = bad")
      case True
      with bad show ?thesis
        unfolding ri by (auto simp: enrich_item_cases)
    next
      case False
      moreover have "entries ! i \<in> set entries" using i by simp
      ultimately have
        "\<not> isl (fetch_quote up (quoteUrl token (symbol (entries ! i))))"
        "\<not> isl (fetch_profile up (profileUrl token (symbol (entries ! i))))"
        "\<not> isl (fetch_financials up (financialsUrl token (symbol (entries ! i))))"
        using good by blast+
      with False show ?thesis
        unfolding ri by (simp add: enrich_item_cases)
    qed
  qed
  have all: "\<forall>i < length entries. r ! i =
                  (if symbol (entries ! i) = bad then basic (entries ! i)
                   else enriched (entries ! i)
                          (projr (fetch_quote up (quoteUrl token (symbol (entries ! i)))))
                          (projr (fetch_profile up (profileUrl token (symbol (entries ! i)))))
                          (projr (fetch_financials up (financialsUrl token (symbol (entries ! i))))))"
    by (intro allI impI) (rule each)
  show ?thesis
    by (rule exI [of _ r]) (rule conjI [OF ret conjI [OF len conjI [OF same all]]])
qed

lemma url_distinct: "quoteUrl ''k'' ''AAPL'' \<noteq> quoteUrl ''k'' ''MSFT''"
  by (simp add: quoteUrl_def)

text \<open>Two entries, the quote request for MSFT throws: MSFT comes back with its
  stored fields only, AAPL with its price formatted.\<close>

theorem failing_symbol_degrades_alone_example:
  "\<exists>r. returned (getUserWatchlist store_up env_key market_msft_down [aapl, msft] ''u1'') = Inr r \<and>
       length r = 2 \<and>
       map watchlist_item.truncate r = [msft, aapl] \<and>
       r ! 0 = basic msft \<and>
       priceFormatted (r ! 0) = None \<and>
       r ! 1 = enriched aapl
                 (Some \<lparr>quote_c = Some (Num (1234 / 10)), quote_dp = Some (Num (5 / 2))\<rparr>)
                 (Some \<lparr>marketCapitalization = Some (Num 2500)\<rparr>)
                 (Some \<lparr>metric = Some \<lparr>peExclExtraTTM = Some (Num (61 / 4)),
                                     peNormalizedAnnual = Some (Num 14)\<rparr>\<rparr>) \<and>
       priceFormatted (r ! 1) = Some ''$123.40''"
proof -
  have uid: "''u1'' \<noteq> []" by simp
  have store: "fails store_up Connect = None" "fails store_up (Find ''u1'') = None"
    by (simp_all add: store_up_def)
  have key: "nullish (FINNHUB_API_KEY env_key) (NEXT_PUBLIC_FINNHUB_API_KEY env_key) = Some ''k''"
    "''k'' \<noteq> []"
    by (simp_all add: env_key_def nullish_def)
  have entries: "[msft, aapl] = sort_addedAt_desc (filter (\<lambda>d. userId d = ''u1'') [aapl, msft])"
    by (simp add: sort_addedAt_desc_def aapl_def msft_def)
  have bad: "isl (fetch_quote market_msft_down (quoteUrl ''k'' ''MSFT'')) \<or>
             isl (fetch_profile market_msft_down (profileUrl ''k'' ''MSFT'')) \<or>
             isl (fetch_financials market_msft_down (financialsUrl ''k'' ''MSFT''))"
    by (simp add: market_msft_down_def)
  have good: "\<forall>d \<in> set [msft, aapl]. symbol d \<noteq> ''MSFT'' \<longrightarrow>
                 \<not> isl (fetch_quote market_msft_down (quoteUrl ''k'' (symbol d))) \<and>
                 \<not> isl (fetch_profile market_msft_down (profileUrl ''k'' (symbol d))) \<and>
                 \<not> isl (fetch_financials market_msft_down (financialsUrl ''k'' (symbol d)))"
    by (simp add: market_msft_down_def market_def aapl_def msft_def url_distinct)
  from failing_symbol_degrades_alone [OF uid store key entries bad good]
  obtain r where all:
    "returned (getUserWatchlist store_up env_key market_msft_down [aapl, msft] ''u1'') = Inr r \<and>
     length r = length [msft, aapl] \<and>
     map watchlist_item.truncate r = [msft, aapl] \<and>
     (\<forall>i < length [msft, aapl].
                r ! i =
                  (if symbol ([msft, aapl] ! i) = ''MSFT'' then basic ([msft, aapl] ! i)
                   else enriched ([msft, aapl] ! i)
                          (projr (fetch_quote market_msft_down (quoteUrl ''k'' (symbol ([msft, aapl] ! i)))))
                          (projr (fetch_profile market_msft_down (profileUrl ''k'' (symbol ([msft, aapl] ! i)))))
                          (projr (fetch_financials market_msft_down (financialsUrl ''k'' (symbol ([msft, aapl] ! i)))))))" ..
  note r = all [THEN conjunct1]
  note len = all [THEN conjunct2, THEN conjunct1]
  note same = all [THEN conjunct2, THEN conjunct2, THEN conjunct1]
  note each = all [THEN conjunct2, THEN conjunct2, THEN conjunct2, rule_format]
  have sym: "symbol msft = ''MSFT''" "symbol aapl = ''AAPL''"
    by (simp_all add: msft_def aapl_def)
  have r0: "r ! 0 = basic msft"
    using each [of 0] by (simp add: sym)
  have r1: "r ! 1 = enriched aapl
                 (Some \<lparr>quote_c = Some (Num (1234 / 10)), quote_dp = Some (Num (5 / 2))\<rparr>)
                 (Some \<lparr>marketCapitalization = Some (Num 2500)\<rparr>)
                 (Some \<lparr>metric = Some \<lparr>peExclExtraTTM = Some (Num (61 / 4)),
                                     peNormalizedAnnual = Some (Num 14)\<rparr>\<rparr>)"
    using each [of 1] by (simp add: sym market_msft_down_def market_def url_distinct)
  have p0: "priceFormatted (r ! 0) = None"
    unfolding r0 by (simp add: basic_def)
  have p1: "priceFormatted (r ! 1) = Some ''$123.40''"
    unfolding r1 by (simp add: enriched_def currentPrice_of_def when_truthy_def fmt_eval)
  have len2: "length r = 2" using len by simp
  show ?thesis
    by (rule exI [of _ r])
       (rule conjI [OF r conjI [OF len2 conjI [OF same conjI [OF r0 conjI [OF p0 conjI [OF r1 p1]]]]]])
qed

section \<open>No credential\<close>

text \<open>
  Claim C2. The store answers and no credential is configured: the token read from
  the environment is undefined or empty. Then the action returns (it does not
  throw) one basic object per entry of the user, in the order of the sorted query,
  with the stored fields and with every numeric and formatted field absent, and it
  sends no request upstream.
\<close>

theorem no_credential_basic_fields:
  assumes uid: "uid \<noteq> []"
    and store: "fails db Connect = None" "fails db (Find uid) = None"
    and nokey: "falsy_str (nullish (FINNHUB_API_KEY env) (NEXT_PUBLIC_FINNHUB_API_KEY env))"
    and entries: "entries = sort_addedAt_desc (filter (\<lambda>d. userId d = uid) docs)"
  shows "returned (getUserWatchlist db env up docs uid) = Inr (map basic entries) \<and>
         requests (getUserWatchlist db env up docs uid) = [] \<and>
         length (map basic entries) = length entries \<and>
         (\<forall>i < length entries.
            symbol (map basic entries ! i) = symbol (entries ! i) \<and>
            company (map basic entries ! i) = company (entries ! i) \<and>
            addedAt (map basic entries ! i) = addedAt (entries ! i) \<and>
            currentPrice (map basic entries ! i) = None \<and>
            changePercent (map basic entries ! i) = None \<and>
            priceFormatted (map basic entries ! i) = None \<and>
            changeFormatted (map basic entries ! i) = None \<and>
            marketCap (map basic entries ! i) = None \<and>
            peRatio (map basic entries ! i) = None)"
proof -
  have run: "getUserWatchlist db env up docs uid =
           \<lparr>returned = Inr (map basic entries),
            store_ops = [Connect, Find uid], store_after = docs, requests = []\<rparr>"
    unfolding entries by (rule getUserWatchlist_no_token [OF uid store nokey])
  have fields: "\<forall>i < length entries.
            symbol (map basic entries ! i) = symbol (entries ! i) \<and>
            company (map basic entries ! i) = company (entries ! i) \<and>
            addedAt (map basic entries ! i) = addedAt (entries ! i) \<and>
            currentPrice (map basic entries ! i) = None \<and>
            changePercent (map basic entries ! i) = None \<and>
            priceFormatted (map basic entries ! i) = None \<and>
            changeFormatted (map basic entries ! i) = None \<and>
            marketCap (map basic entries ! i) = None \<and>
            peRatio (map basic entries ! i) = None"
    by (simp add: basic_def)
  show ?thesis
    using fields by (simp add: run)
qed

text \<open>Two entries and neither environment variable set.\<close>

theorem no_credential_basic_fields_example:
  "returned (getUserWatchlist store_up env_no_key market [aapl, msft] ''u1'')
     = Inr [basic msft, basic aapl] \<and>
   requests (getUserWatchlist store_up env_no_key market [aapl, msft] ''u1'') = [] \<and>
   priceFormatted (basic msft) = None \<and> peRatio (basic aapl) = None"
proof -
  have uid: "''u1'' \<noteq> []" by simp
  have store: "fails store_up Connect = None" "fails store_up (Find ''u1'') = None"
    by (simp_all add: store_up_def)
  have nokey: "falsy_str (nullish (FINNHUB_API_KEY env_no_key) (NEXT_PUBLIC_FINNHUB_API_KEY env_no_key))"
    by (simp add: env_no_key_def nullish_def falsy_str_def)
  have entries: "[msft, aapl] = sort_addedAt_desc (filter (\<lambda>d. userId d = ''u1'') [aapl, msft])"
    by (simp add: sort_addedAt_desc_def aapl_def msft_def)
  note c2 = no_credential_basic_fields [OF uid store nokey entries, of market]
  have "priceFormatted (basic msft) = None" "peRatio (basic aapl) = None"
    by (simp_all add: basic_def)
  with c2 [THEN conjunct1] c2 [THEN conjunct2, THEN conjunct1] show ?thesis
    by simp
qed

section \<open>Formatting\<close>

lemmas enriched_fields = enriched_def currentPrice_of_def changePercent_of_def
  marketCapValue_of_def peRatioValue_of_def when_truthy_def or_else_def truthy_def



section \<open>Zero values\<close>

text \<open>
  Claim C10 says that for each of the four upstream numbers a zero leaves the raw
  field exposed and the formatted field absent. Two parts of it fail. With a
  \<^verbatim>\<open>peExclExtraTTM\<close> of exactly zero beside a \<^verbatim>\<open>peNormalizedAnnual\<close> of 14, line 75 falls
  through to the second field and \<open>peRatio\<close> is \<^verbatim>\<open>14.00\<close>, not absent. And the record
  has no raw field for the market capitalization: with a market capitalization of
  zero it is the very record that a profile without a market capitalization gives.
\<close>

theorem zero_values_counterexample:
  "peRatio (snd (enrich_item market_pe_zero ''k'' aapl)) = Some ''14.00'' \<and>
   snd (enrich_item market_pe_zero ''k'' aapl) = snd (enrich_item market_no_cap ''k'' aapl)"
  by (simp add: enrich_item_cases market_pe_zero_def market_no_cap_def market_def
      enriched_fields fmt_eval)

text \<open>
  Claim C10, amended. All three requests for an item return. If the price read
  from the quote is exactly zero, the record carries the raw \<open>currentPrice\<close> zero
  and no \<open>priceFormatted\<close>; the same for the percent change and \<open>changeFormatted\<close>.
  If the market capitalization is zero, \<open>marketCap\<close> is absent, and the record, which
  has no raw field for it, is the one of a body without a profile. \<open>peRatio\<close> is
  absent when each of \<^verbatim>\<open>peExclExtraTTM\<close> and \<^verbatim>\<open>peNormalizedAnnual\<close> is zero or missing,
  and the record is then the one of a body without metrics; a \<^verbatim>\<open>peExclExtraTTM\<close> of
  zero beside a non-zero \<^verbatim>\<open>peNormalizedAnnual\<close> is formatted from the latter. A
  formatted field is absent in the same way when its value is missing from the
  body, and in the basic object returned when a request fails.
\<close>

theorem zero_values_lose_their_format:
  assumes q: "fetch_quote up (quoteUrl token (symbol item)) = Inr qd"
    and p: "fetch_profile up (profileUrl token (symbol item)) = Inr pd"
    and f: "fetch_financials up (financialsUrl token (symbol item)) = Inr fd"
  shows "(currentPrice_of qd = Some (Num 0) \<longrightarrow>
            currentPrice (snd (enrich_item up token item)) = Some (Num 0) \<and>
            priceFormatted (snd (enrich_item up token item)) = None) \<and>
         (changePercent_of qd = Some (Num 0) \<longrightarrow>
            changePercent (snd (enrich_item up token item)) = Some (Num 0) \<and>
            changeFormatted (snd (enrich_item up token item)) = None) \<and>
         (marketCapValue_of pd = Some (Num 0) \<longrightarrow>
            marketCap (snd (enrich_item up token item)) = None \<and>
            snd (enrich_item up token item) = enriched item qd None fd) \<and>
         ((Option.bind (Option.bind fd metric) peExclExtraTTM = None \<or>
           Option.bind (Option.bind fd metric) peExclExtraTTM = Some (Num 0)) \<and>
          (Option.bind (Option.bind fd metric) peNormalizedAnnual = None \<or>
           Option.bind (Option.bind fd metric) peNormalizedAnnual = Some (Num 0)) \<longrightarrow>
            peRatio (snd (enrich_item up token item)) = None \<and>
            snd (enrich_item up token item) = enriched item qd pd None) \<and>
         (Option.bind (Option.bind fd metric) peExclExtraTTM = Some (Num 0) \<and>
          Option.bind (Option.bind fd metric) peNormalizedAnnual = Some v \<and> v \<noteq> Num 0 \<longrightarrow>
            peRatio (snd (enrich_item up token item)) = Some (toFixed 2 v)) \<and>
         (currentPrice_of qd = None \<longrightarrow> priceFormatted (snd (enrich_item up token item)) = None) \<and>
         (changePercent_of qd = None \<longrightarrow> changeFormatted (snd (enrich_item up token item)) = None) \<and>
         (marketCapValue_of pd = None \<longrightarrow> marketCap (snd (enrich_item up token item)) = None) \<and>
         priceFormatted (basic item) = None \<and> changeFormatted (basic item) = None \<and>
         marketCap (basic item) = None \<and> peRatio (basic item) = None"
proof -
  have r: "snd (enrich_item up token item) = enriched item qd pd fd"
    by (simp add: enrich_item_cases q p f)
  have price: "currentPrice_of qd = Some (Num 0) \<longrightarrow>
            currentPrice (enriched item qd pd fd) = Some (Num 0) \<and>
            priceFormatted (enriched item qd pd fd) = None"
    by (simp add: enriched_def when_truthy_def)
  have change: "changePercent_of qd = Some (Num 0) \<longrightarrow>
            changePercent (enriched item qd pd fd) = Some (Num 0) \<and>
            changeFormatted (enriched item qd pd fd) = None"
    by (simp add: enriched_def when_truthy_def)
  have cap: "marketCapValue_of pd = Some (Num 0) \<longrightarrow>
            marketCap (enriched item qd pd fd) = None \<and>
            enriched item qd pd fd = enriched item qd None fd"
    by (simp add: enriched_def when_truthy_def marketCapValue_of_def)
  have pe0: "(Option.bind (Option.bind fd metric) peExclExtraTTM = None \<or>
           Option.bind (Option.bind fd metric) peExclExtraTTM = Some (Num 0)) \<and>
          (Option.bind (Option.bind fd metric) peNormalizedAnnual = None \<or>
           Option.bind (Option.bind fd metric) peNormalizedAnnual = Some (Num 0)) \<longrightarrow>
            peRatio (enriched item qd pd fd) = None \<and>
            enriched item qd pd fd = enriched item qd pd None"
    by (auto simp: enriched_def when_truthy_def peRatioValue_of_def or_else_def truthy_def)
  have pe1: "Option.bind (Option.bind fd metric) peExclExtraTTM = Some (Num 0) \<and>
          Option.bind (Option.bind fd metric) peNormalizedAnnual = Some v \<and> v \<noteq> Num 0 \<longrightarrow>
            peRatio (enriched item qd pd fd) = Some (toFixed 2 v)"
    by (simp add: enriched_def when_truthy_def peRatioValue_of_def or_else_def truthy_def
        format_pe_def)
  have none: "(currentPrice_of qd = None \<longrightarrow> priceFormatted (enriched item qd pd fd) = None) \<and>
         (changePercent_of qd = None \<longrightarrow> changeFormatted (enriched item qd pd fd) = None) \<and>
         (marketCapValue_of pd = None \<longrightarrow> marketCap (enriched item qd pd fd) = None) \<and>
         priceFormatted (basic item) = None \<and> changeFormatted (basic item) = None \<and>
         marketCap (basic item) = None \<and> peRatio (basic item) = None"
    by (simp add: enriched_def when_truthy_def basic_def)
  show ?thesis
    unfolding r
    by (rule conjI [OF price conjI [OF change conjI [OF cap conjI [OF pe0 conjI [OF pe1 none]]]]])
qed

text \<open>A service that answers every request with zeros, and one with a
  \<^verbatim>\<open>peExclExtraTTM\<close> of zero beside a \<^verbatim>\<open>peNormalizedAnnual\<close> of 14.\<close>

theorem zero_values_lose_their_format_example:
  "currentPrice (snd (enrich_item market_zero ''k'' aapl)) = Some (Num 0) \<and>
   changePercent (snd (enrich_item market_zero ''k'' aapl)) = Some (Num 0) \<and>
   priceFormatted (snd (enrich_item market_zero ''k'' aapl)) = None \<and>
   changeFormatted (snd (enrich_item market_zero ''k'' aapl)) = None \<and>
   marketCap (snd (enrich_item market_zero ''k'' aapl)) = None \<and>
   peRatio (snd (enrich_item market_zero ''k'' aapl)) = None \<and>
   peRatio (snd (enrich_item market_pe_zero ''k'' aapl)) = Some ''14.00''"
proof -
  define qd where "qd = Some \<lparr>quote_c = Some (Num 0), quote_dp = Some (Num 0)\<rparr>"
  define pd where "pd = Some \<lparr>marketCapitalization = Some (Num 0)\<rparr>"
  define fd where
    "fd = Some \<lparr>metric = Some \<lparr>peExclExtraTTM = Some (Num 0), peNormalizedAnnual = Some (Num 0)\<rparr>\<rparr>"
  define fd' where
    "fd' = Some \<lparr>metric = Some \<lparr>peExclExtraTTM = Some (Num 0), peNormalizedAnnual = Some (Num 14)\<rparr>\<rparr>"
  define qd' where "qd' = Some \<lparr>quote_c = Some (Num (1234 / 10)), quote_dp = Some (Num (5 / 2))\<rparr>"
  have q: "fetch_quote market_zero (quoteUrl ''k'' (symbol aapl)) = Inr qd"
    and p: "fetch_profile market_zero (profileUrl ''k'' (symbol aapl)) = Inr pd"
    and f: "fetch_financials market_zero (financialsUrl ''k'' (symbol aapl)) = Inr fd"
    by (simp_all add: market_zero_def qd_def pd_def fd_def)
  have q': "fetch_quote market_pe_zero (quoteUrl ''k'' (symbol aapl)) = Inr qd'"
    and p': "fetch_profile market_pe_zero (profileUrl ''k'' (symbol aapl)) = Inr pd"
    and f': "fetch_financials market_pe_zero (financialsUrl ''k'' (symbol aapl)) = Inr fd'"
    by (simp_all add: market_pe_zero_def market_def qd'_def pd_def fd'_def)
  have zero: "currentPrice_of qd = Some (Num 0)" "changePercent_of qd = Some (Num 0)"
    "marketCapValue_of pd = Some (Num 0)"
    by (simp_all add: qd_def pd_def currentPrice_of_def changePercent_of_def
        marketCapValue_of_def)
  have pe_zero:
    "(Option.bind (Option.bind fd metric) peExclExtraTTM = None \<or>
      Option.bind (Option.bind fd metric) peExclExtraTTM = Some (Num 0)) \<and>
     (Option.bind (Option.bind fd metric) peNormalizedAnnual = None \<or>
      Option.bind (Option.bind fd metric) peNormalizedAnnual = Some (Num 0))"
    by (simp add: fd_def)
  have pe_fall:
    "Option.bind (Option.bind fd' metric) peExclExtraTTM = Some (Num 0) \<and>
     Option.bind (Option.bind fd' metric) peNormalizedAnnual = Some (Num 14) \<and> Num 14 \<noteq> Num 0"
    by (simp add: fd'_def)
  note c10 = zero_values_lose_their_format [OF q p f]
  note c10' = zero_values_lose_their_format [OF q' p' f', where v = "Num 14"]
  note price = c10 [THEN conjunct1, rule_format, OF zero(1)]
  note change = c10 [THEN conjunct2, THEN conjunct1, rule_format, OF zero(2)]
  note cap = c10 [THEN conjunct2, THEN conjunct2, THEN conjunct1, rule_format, OF zero(3)]
  note pe = c10 [THEN conjunct2, THEN conjunct2, THEN conjunct2, THEN conjunct1, rule_format,
      OF pe_zero]
  note fall = c10' [THEN conjunct2, THEN conjunct2, THEN conjunct2, THEN conjunct2,
      THEN conjunct1, rule_format, OF pe_fall]
  have fourteen: "toFixed 2 (Num 14) = ''14.00''"
    by (simp add: fmt_eval)
  have fall': "peRatio (snd (enrich_item market_pe_zero ''k'' aapl)) = Some ''14.00''"
    using fall unfolding fourteen .
  show ?thesis
    by (rule conjI [OF price [THEN conjunct1] conjI [OF change [THEN conjunct1]
          conjI [OF price [THEN conjunct2] conjI [OF change [THEN conjunct2]
          conjI [OF cap [THEN conjunct1] conjI [OF pe [THEN conjunct1] fall']]]]]])
qed

section \<open>Totality of the actions\<close>

lemma getUserWatchlist_total: "\<exists>r. returned (getUserWatchlist db env up docs uid) = Inr r"
  using getUserWatchlist_returned [of db env up docs uid] by blast

lemma getWatchlistSymbolsByEmail_total:
  "\<exists>r. returned (getWatchlistSymbolsByEmail db users docs email) = Inr r"
  by (cases "returned (getWatchlistSymbolsByEmail_try db users docs email)")
     (simp_all add: getWatchlistSymbolsByEmail_def Let_def)

lemma addToWatchlist_total: "\<exists>r. returned (addToWatchlist db docs uid ticker name) = Inr r"
  by (cases "returned (addToWatchlist_try db docs uid ticker name)")
     (simp_all add: addToWatchlist_def Let_def)

lemma removeFromWatchlist_total: "\<exists>r. returned (removeFromWatchlist db docs uid ticker) = Inr r"
  by (cases "returned (removeFromWatchlist_try db docs uid ticker)")
     (simp_all add: removeFromWatchlist_def Let_def)

text \<open>
  Claim C7. Each of the four server actions returns a value on every input and in
  every condition of the store and of the market-data service: its promise is never
  rejected. For the empty user id the list action returns the empty list and
  issues no store call and no request. For a non-empty user id, when connecting
  or the query fails, it returns the empty list.
\<close>

theorem read_paths_fail_open:
  "(\<exists>r. returned (getUserWatchlist db env up docs uid) = Inr r) \<and>
   (\<exists>r. returned (getWatchlistSymbolsByEmail db users docs email) = Inr r) \<and>
   (\<exists>r. returned (addToWatchlist db docs uid ticker name) = Inr r) \<and>
   (\<exists>r. returned (removeFromWatchlist db docs uid ticker) = Inr r) \<and>
   returned (getUserWatchlist db env up docs []) = Inr [] \<and>
   store_ops (getUserWatchlist db env up docs []) = [] \<and>
   requests (getUserWatchlist db env up docs []) = [] \<and>
   (uid \<noteq> [] \<and> (fails db Connect \<noteq> None \<or> fails db (Find uid) \<noteq> None) \<longrightarrow>
      returned (getUserWatchlist db env up docs uid) = Inr [] \<and>
      requests (getUserWatchlist db env up docs uid) = [])"
proof -
  have empty: "returned (getUserWatchlist db env up docs []) = Inr []"
    "store_ops (getUserWatchlist db env up docs []) = []"
    "requests (getUserWatchlist db env up docs []) = []"
    by (simp_all add: getUserWatchlist_empty_uid)
  have down: "uid \<noteq> [] \<and> (fails db Connect \<noteq> None \<or> fails db (Find uid) \<noteq> None) \<longrightarrow>
      returned (getUserWatchlist db env up docs uid) = Inr [] \<and>
      requests (getUserWatchlist db env up docs uid) = []"
  proof (intro impI, elim conjE)
    assume "uid \<noteq> []" "fails db Connect \<noteq> None \<or> fails db (Find uid) \<noteq> None"
    from getUserWatchlist_store_failure [OF this, of env up docs]
    show "returned (getUserWatchlist db env up docs uid) = Inr [] \<and>
      requests (getUserWatchlist db env up docs uid) = []"
      by simp
  qed
  show ?thesis
    by (rule conjI [OF getUserWatchlist_total conjI [OF getWatchlistSymbolsByEmail_total
          conjI [OF addToWatchlist_total conjI [OF removeFromWatchlist_total
          conjI [OF empty(1) conjI [OF empty(2) conjI [OF empty(3) down]]]]]]])
qed

text \<open>A store that rejects every call.\<close>

theorem read_paths_fail_open_example:
  "returned (getUserWatchlist store_down env_key market [aapl, msft] ''u1'') = Inr [] \<and>
   requests (getUserWatchlist store_down env_key market [aapl, msft] ''u1'') = [] \<and>
   returned (getUserWatchlist store_down env_key market [aapl, msft] []) = Inr [] \<and>
   store_ops (getUserWatchlist store_down env_key market [aapl, msft] []) = []"
proof -
  have pre: "''u1'' \<noteq> [] \<and>
      (fails store_down Connect \<noteq> None \<or> fails store_down (Find ''u1'') \<noteq> None)"
    by (simp add: store_down_def)
  note c7 = read_paths_fail_open [of store_down env_key market "[aapl, msft]" "''u1''"]
  note tail = c7 [THEN conjunct2, THEN conjunct2, THEN conjunct2, THEN conjunct2]
  from tail [THEN conjunct2, THEN conjunct2, THEN conjunct2, rule_format, OF pre]
    tail [THEN conjunct1] tail [THEN conjunct2, THEN conjunct1]
  show ?thesis by simp
qed

section \<open>The order of the upstream requests\<close>

lemma demo_entries: "sort_addedAt_desc (filter (\<lambda>d. userId d = ''u1'') [aapl, msft]) = [msft, aapl]"
  by (simp add: sort_addedAt_desc_def aapl_def msft_def)

lemma demo_run:
  "getUserWatchlist store_up env_key up [aapl, msft] ''u1'' =
     \<lparr>returned = Inr [snd (enrich_item up ''k'' msft), snd (enrich_item up ''k'' aapl)],
      store_ops = [Connect, Find ''u1''], store_after = [aapl, msft],
      requests = [fst (enrich_item up ''k'' msft), fst (enrich_item up ''k'' aapl)]\<rparr>"
proof -
  have "nullish (FINNHUB_API_KEY env_key) (NEXT_PUBLIC_FINNHUB_API_KEY env_key) = Some ''k''"
    by (simp add: env_key_def nullish_def)
  moreover have "fails store_up Connect = None" "fails store_up (Find ''u1'') = None"
    by (simp_all add: store_up_def)
  ultimately have
    "getUserWatchlist store_up env_key up [aapl, msft] ''u1'' =
       \<lparr>returned = Inr (map snd (map (enrich_item up ''k'') [msft, aapl])),
        store_ops = [Connect, Find ''u1''], store_after = [aapl, msft],
        requests = map fst (map (enrich_item up ''k'') [msft, aapl])\<rparr>"
    using getUserWatchlist_token [of "''u1''" store_up env_key "''k''" up "[aapl, msft]",
        unfolded demo_entries]
    by (simp only: list.simps not_Cons_self2 simp_thms)
  then show ?thesis by simp
qed

lemma msft_down_requests:
  "fst (enrich_item market_msft_down ''k'' msft) = [quoteUrl ''k'' ''MSFT'']"
  "fst (enrich_item market_msft_down ''k'' aapl) =
     [quoteUrl ''k'' ''AAPL'', profileUrl ''k'' ''AAPL'', financialsUrl ''k'' ''AAPL'']"
  by (simp_all add: enrich_item_cases market_msft_down_def market_def msft_def aapl_def url_distinct)

text \<open>
  Claim C8 says that for every entry the three requests are issued as independent
  requests. The callback awaits each response before it builds the next request,
  so they are not: with the quote request for MSFT throwing, the only request
  issued for MSFT is the quote request, and neither the profile nor the metrics
  request for MSFT is issued at all.
\<close>

theorem three_requests_counterexample:
  "requests (getUserWatchlist store_up env_key market_msft_down [aapl, msft] ''u1'') ! 0
     = [quoteUrl ''k'' ''MSFT''] \<and>
   profileUrl ''k'' ''MSFT''
     \<notin> set (concat (requests (getUserWatchlist store_up env_key market_msft_down [aapl, msft] ''u1''))) \<and>
   financialsUrl ''k'' ''MSFT''
     \<notin> set (concat (requests (getUserWatchlist store_up env_key market_msft_down [aapl, msft] ''u1'')))"
  by (simp add: demo_run msft_down_requests)
     (simp add: quoteUrl_def profileUrl_def financialsUrl_def)

text \<open>
  Claim C8, amended. The store answers and a credential is configured. For every
  entry the requests are issued in the order quote, profile, metrics, each one
  only when the one before it has returned: the requests of an entry are the quote
  request alone when it throws, quote and profile when the profile request throws,
  and all three otherwise. Every entry is processed whatever fails for another
  one: the action returns one record per entry, the record the callback gives for
  that entry, and there is one group of requests per entry. What the callback
  requests and returns for an item depends on the responses to that item's own
  three URLs only.
\<close>

theorem requests_in_sequence:
  assumes uid: "uid \<noteq> []"
    and store: "fails db Connect = None" "fails db (Find uid) = None"
    and key: "nullish (FINNHUB_API_KEY env) (NEXT_PUBLIC_FINNHUB_API_KEY env) = Some token"
      "token \<noteq> []"
    and entries: "entries = sort_addedAt_desc (filter (\<lambda>d. userId d = uid) docs)"
  shows "(\<exists>r. returned (getUserWatchlist db env up docs uid) = Inr r \<and>
              length r = length entries \<and>
              (\<forall>i < length entries. r ! i = snd (enrich_item up token (entries ! i)))) \<and>
         length (requests (getUserWatchlist db env up docs uid)) = length entries \<and>
         (\<forall>i < length entries.
            requests (getUserWatchlist db env up docs uid) ! i =
              (if isl (fetch_quote up (quoteUrl token (symbol (entries ! i))))
               then [quoteUrl token (symbol (entries ! i))]
               else if isl (fetch_profile up (profileUrl token (symbol (entries ! i))))
               then [quoteUrl token (symbol (entries ! i)), profileUrl token (symbol (entries ! i))]
               else [quoteUrl token (symbol (entries ! i)), profileUrl token (symbol (entries ! i)),
                     financialsUrl token (symbol (entries ! i))])) \<and>
         (fetch_quote up' (quoteUrl token (symbol item)) = fetch_quote up (quoteUrl token (symbol item)) \<and>
          fetch_profile up' (profileUrl token (symbol item)) = fetch_profile up (profileUrl token (symbol item)) \<and>
          fetch_financials up' (financialsUrl token (symbol item))
            = fetch_financials up (financialsUrl token (symbol item))
          \<longrightarrow> enrich_item up' token item = enrich_item up token item)"
proof -
  note run = getUserWatchlist_token [OF uid store key, of up docs, folded entries]
  have a: "\<exists>r. returned (getUserWatchlist db env up docs uid) = Inr r \<and>
              length r = length entries \<and>
              (\<forall>i < length entries. r ! i = snd (enrich_item up token (entries ! i)))"
    by (simp add: run)
  have b: "length (requests (getUserWatchlist db env up docs uid)) = length entries"
    by (simp add: run)
  have c: "\<forall>i < length entries.
            requests (getUserWatchlist db env up docs uid) ! i =
              (if isl (fetch_quote up (quoteUrl token (symbol (entries ! i))))
               then [quoteUrl token (symbol (entries ! i))]
               else if isl (fetch_profile up (profileUrl token (symbol (entries ! i))))
               then [quoteUrl token (symbol (entries ! i)), profileUrl token (symbol (entries ! i))]
               else [quoteUrl token (symbol (entries ! i)), profileUrl token (symbol (entries ! i)),
                     financialsUrl token (symbol (entries ! i))])"
    by (simp add: run enrich_item_cases)
  have d: "fetch_quote up' (quoteUrl token (symbol item)) = fetch_quote up (quoteUrl token (symbol item)) \<and>
          fetch_profile up' (profileUrl token (symbol item)) = fetch_profile up (profileUrl token (symbol item)) \<and>
          fetch_financials up' (financialsUrl token (symbol item))
            = fetch_financials up (financialsUrl token (symbol item))
          \<longrightarrow> enrich_item up' token item = enrich_item up token item"
    by (intro impI, elim conjE) (simp add: enrich_item_def enrich_try_def split: sum.splits)
  show ?thesis
    by (rule conjI [OF a conjI [OF b conjI [OF c d]]])
qed

text \<open>The two entries with the quote request for MSFT throwing.\<close>

theorem requests_in_sequence_example:
  "requests (getUserWatchlist store_up env_key market_msft_down [aapl, msft] ''u1'') ! 0
     = [quoteUrl ''k'' ''MSFT''] \<and>
   requests (getUserWatchlist store_up env_key market_msft_down [aapl, msft] ''u1'') ! 1
     = [quoteUrl ''k'' ''AAPL'', profileUrl ''k'' ''AAPL'', financialsUrl ''k'' ''AAPL''] \<and>
   length (requests (getUserWatchlist store_up env_key market_msft_down [aapl, msft] ''u1'')) = 2"
proof -
  have uid: "''u1'' \<noteq> []" by simp
  have store: "fails store_up Connect = None" "fails store_up (Find ''u1'') = None"
    by (simp_all add: store_up_def)
  have key: "nullish (FINNHUB_API_KEY env_key) (NEXT_PUBLIC_FINNHUB_API_KEY env_key) = Some ''k''"
    "''k'' \<noteq> []"
    by (simp_all add: env_key_def nullish_def)
  note c8 = requests_in_sequence [OF uid store key demo_entries [symmetric],
      of market_msft_down market aapl]
  note len = c8 [THEN conjunct2, THEN conjunct1]
  note each = c8 [THEN conjunct2, THEN conjunct2, THEN conjunct1, rule_format]
  have sym: "symbol msft = ''MSFT''" "symbol aapl = ''AAPL''"
    by (simp_all add: msft_def aapl_def)
  have r0: "requests (getUserWatchlist store_up env_key market_msft_down [aapl, msft] ''u1'') ! 0
     = [quoteUrl ''k'' ''MSFT'']"
    using each [of 0] by (simp add: sym market_msft_down_def)
  have r1: "requests (getUserWatchlist store_up env_key market_msft_down [aapl, msft] ''u1'') ! 1
     = [quoteUrl ''k'' ''AAPL'', profileUrl ''k'' ''AAPL'', financialsUrl ''k'' ''AAPL'']"
    using each [of 1] by (simp add: sym market_msft_down_def market_def url_distinct)
  from len have l: "length (requests (getUserWatchlist store_up env_key market_msft_down [aapl, msft] ''u1'')) = 2"
    by simp
  show ?thesis
    by (rule conjI [OF r0 conjI [OF r1 l]])
qed

section \<open>The store and the writing actions\<close>

lemma has_pair_iff: "has_pair docs uid t \<longleftrightarrow> (uid, t) \<in> set (map (\<lambda>d. (userId d, symbol d)) docs)"
  by (auto simp: has_pair_def list_ex_iff)

lemma delete_first_absent: "\<forall>x \<in> set xs. \<not> P x \<Longrightarrow> delete_first P xs = (0, xs)"
  by (induction xs) simp_all

lemma delete_first_set: "set (snd (delete_first P xs)) \<subseteq> set xs"
  by (induction xs) (auto split: prod.splits)

lemma delete_first_distinct:
  "distinct (map f xs) \<Longrightarrow> snd (delete_first (\<lambda>x. f x = k) xs) = filter (\<lambda>x. f x \<noteq> k) xs"
proof (induction xs)
  case Nil
  then show ?case by simp
next
  case (Cons x xs)
  show ?case
  proof (cases "f x = k")
    case True
    with Cons.prems have "k \<notin> f ` set xs" by simp
    then have "\<forall>y \<in> set xs. f y \<noteq> k" by blast
    then have "filter (\<lambda>x. f x \<noteq> k) xs = xs" by (simp add: filter_id_conv)
    with True show ?thesis by simp
  next
    case False
    with Cons show ?thesis by (auto split: prod.splits)
  qed
qed

lemma delete_first_keeps_distinct:
  "distinct (map f xs) \<Longrightarrow> distinct (map f (snd (delete_first P xs)))"
proof (induction xs)
  case Nil
  then show ?case by simp
next
  case (Cons x xs)
  show ?case
  proof (cases "P x")
    case True
    with Cons.prems show ?thesis by simp
  next
    case False
    have "f x \<notin> f ` set (snd (delete_first P xs))"
      using Cons.prems delete_first_set [of P xs] by auto
    moreover have "distinct (map f (snd (delete_first P xs)))"
      using Cons by simp
    ultimately show ?thesis using False by (auto split: prod.splits)
  qed
qed

lemma count_unique:
  "distinct (map f xs) \<Longrightarrow> k \<in> set (map f xs) \<Longrightarrow> length (filter (\<lambda>x. f x = k) xs) = 1"
proof (induction xs)
  case Nil
  then show ?case by simp
next
  case (Cons x xs)
  show ?case
  proof (cases "f x = k")
    case True
    with Cons.prems have "k \<notin> f ` set xs" by simp
    then have "\<forall>y \<in> set xs. f y \<noteq> k" by blast
    then have "filter (\<lambda>x. f x = k) xs = []" by (simp add: filter_empty_conv)
    with True show ?thesis by simp
  next
    case False
    with Cons show ?thesis by simp
  qed
qed

text \<open>The paths of the two writing actions.\<close>

lemma addToWatchlist_store_after:
  "store_after (addToWatchlist db docs uid ticker name) =
     (if uid \<noteq> [] \<and> ticker \<noteq> [] \<and> name \<noteq> [] \<and> fails db Connect = None \<and>
         fails db (Create uid (toUpperCase ticker) name) = None \<and>
         \<not> has_pair docs uid (toUpperCase ticker)
      then docs @ [\<lparr>userId = uid, symbol = toUpperCase ticker, company = name, addedAt = clock db\<rparr>]
      else docs)"
  by (auto simp: addToWatchlist_def addToWatchlist_try_def connectToDatabase_def
      Watchlist_create_def Let_def split: option.splits)

lemma addToWatchlist_duplicate:
  assumes "uid \<noteq> []" "ticker \<noteq> []" "name \<noteq> []" "fails db Connect = None"
    "fails db (Create uid (toUpperCase ticker) name) = None"
    "has_pair docs uid (toUpperCase ticker)"
  shows "returned (addToWatchlist db docs uid ticker name)
           = Inr \<lparr>success = False, message = ''Stock already in watchlist''\<rparr>"
  using assms
  by (simp add: addToWatchlist_def addToWatchlist_try_def connectToDatabase_def
      Watchlist_create_def DUPLICATE_KEY_def Let_def)

lemma addToWatchlist_other_failure:
  assumes "uid \<noteq> []" "ticker \<noteq> []" "name \<noteq> []" "fails db Connect = None"
    "fails db (Create uid (toUpperCase ticker) name) = Some e" "err_code e \<noteq> Some 11000"
  shows "returned (addToWatchlist db docs uid ticker name)
           = Inr \<lparr>success = False, message = ''Failed to add to watchlist''\<rparr>"
  using assms
  by (simp add: addToWatchlist_def addToWatchlist_try_def connectToDatabase_def
      Watchlist_create_def Let_def)

lemma removeFromWatchlist_up:
  assumes "uid \<noteq> []" "ticker \<noteq> []" "fails db Connect = None"
    "fails db (DeleteOne uid (toUpperCase ticker)) = None"
  shows "removeFromWatchlist db docs uid ticker =
     \<lparr>returned =
        Inr (if fst (delete_first (\<lambda>d. userId d = uid \<and> symbol d = toUpperCase ticker) docs) = 0
             then \<lparr>success = False, message = ''Stock not found in watchlist''\<rparr>
             else \<lparr>success = True, message = ''Removed from watchlist''\<rparr>),
      store_ops = [Connect, DeleteOne uid (toUpperCase ticker)],
      store_after = snd (delete_first (\<lambda>d. userId d = uid \<and> symbol d = toUpperCase ticker) docs),
      requests = []\<rparr>"
  using assms
  by (simp add: removeFromWatchlist_def removeFromWatchlist_try_def connectToDatabase_def
      Watchlist_deleteOne_def Let_def split: prod.splits)

lemma removeFromWatchlist_store_after:
  "store_after (removeFromWatchlist db docs uid ticker) =
     (if uid \<noteq> [] \<and> ticker \<noteq> [] \<and> fails db Connect = None \<and>
         fails db (DeleteOne uid (toUpperCase ticker)) = None
      then snd (delete_first (\<lambda>d. userId d = uid \<and> symbol d = toUpperCase ticker) docs)
      else docs)"
  by (auto simp: removeFromWatchlist_def removeFromWatchlist_try_def connectToDatabase_def
      Watchlist_deleteOne_def Let_def split: option.splits prod.splits)

lemma removeFromWatchlist_success:
  assumes "returned (removeFromWatchlist db docs uid ticker) = Inr res" "success res"
  shows "uid \<noteq> [] \<and> ticker \<noteq> [] \<and> fails db Connect = None \<and>
         fails db (DeleteOne uid (toUpperCase ticker)) = None"
  using assms
  by (auto simp: removeFromWatchlist_def removeFromWatchlist_try_def connectToDatabase_def
      Watchlist_deleteOne_def Let_def split: option.splits prod.splits if_splits)

lemma unique_pairs_add:
  "unique_pairs docs \<Longrightarrow> unique_pairs (store_after (addToWatchlist db docs uid ticker name))"
  by (auto simp: addToWatchlist_store_after unique_pairs_def has_pair_iff)

lemma unique_pairs_remove:
  "unique_pairs docs \<Longrightarrow> unique_pairs (store_after (removeFromWatchlist db docs uid ticker))"
  by (simp add: removeFromWatchlist_store_after unique_pairs_def delete_first_keeps_distinct)

lemma unique_pairs_after_calls:
  "unique_pairs docs \<Longrightarrow> unique_pairs (after_calls docs calls)"
proof (induction calls arbitrary: docs)
  case Nil
  then show ?case by (simp add: after_calls_def)
next
  case (Cons call calls)
  have "unique_pairs (apply_call docs call)"
    using Cons.prems by (cases call) (simp_all add: unique_pairs_add unique_pairs_remove)
  then have "unique_pairs (after_calls (apply_call docs call) calls)"
    by (rule Cons.IH)
  then show ?case by (simp add: after_calls_def)
qed

section \<open>Adding a pair twice\<close>

lemma getUserWatchlist_entries:
  assumes up: "uid \<noteq> []" "fails db Connect = None" "fails db (Find uid) = None"
  shows "\<exists>r. returned (getUserWatchlist db env up docs uid) = Inr r \<and>
             map watchlist_item.truncate r = sort_addedAt_desc (filter (\<lambda>d. userId d = uid) docs)"
proof (cases "falsy_str (nullish (FINNHUB_API_KEY env) (NEXT_PUBLIC_FINNHUB_API_KEY env))")
  case True
  show ?thesis
    using getUserWatchlist_no_token [OF up True, of up docs]
    by (simp add: comp_def truncate_basic)
next
  case False
  then obtain token where
    "nullish (FINNHUB_API_KEY env) (NEXT_PUBLIC_FINNHUB_API_KEY env) = Some token" "token \<noteq> []"
    by (auto simp: falsy_str_def split: option.splits)
  then show ?thesis
    using getUserWatchlist_token [OF up, of env token up docs]
    by (simp add: comp_def truncate_enrich_item)
qed

lemma symbol_truncate: "symbol (watchlist_item.truncate r) = symbol r"
  by (simp add: watchlist_item.truncate_def)

lemma listed_once:
  assumes uniq: "unique_pairs docs" and has: "has_pair docs uid t"
    and r: "map watchlist_item.truncate r = sort_addedAt_desc (filter (\<lambda>d. userId d = uid) docs)"
  shows "length (filter (\<lambda>x. symbol x = t) r) = 1"
proof -
  have "length (filter (\<lambda>x. symbol x = t) r)
        = length (filter (\<lambda>d. symbol d = t) (map watchlist_item.truncate r))"
    by (simp add: filter_map comp_def symbol_truncate)
  also have "\<dots> = length (filter (\<lambda>d. symbol d = t) (filter (\<lambda>d. userId d = uid) docs))"
    unfolding r sort_addedAt_desc_def by (simp add: filter_sort)
  also have "\<dots> = length (filter (\<lambda>d. (userId d, symbol d) = (uid, t)) docs)"
    by (simp add: conj_commute)
  also have "\<dots> = 1"
    using uniq has count_unique [of "\<lambda>d. (userId d, symbol d)" docs "(uid, t)"]
    unfolding unique_pairs_def has_pair_iff by blast
  finally show ?thesis .
qed

lemma addToWatchlist_success_has_pair:
  assumes "returned (addToWatchlist db docs uid ticker name) = Inr res" "success res"
  shows "has_pair (store_after (addToWatchlist db docs uid ticker name)) uid (toUpperCase ticker)"
  using assms
  by (auto simp: addToWatchlist_def addToWatchlist_try_def connectToDatabase_def
      Watchlist_create_def Let_def has_pair_def split: option.splits if_splits)

text \<open>
  Claim C5. The three fields are given, the store answers and the pair (user id,
  upper-cased symbol) is already in the collection: Add returns the failure
  \<^verbatim>\<open>Stock already in watchlist\<close>. A store error with any other code gives the
  different failure \<^verbatim>\<open>Failed to add to watchlist\<close>. A successful Add leaves the pair
  in the collection, so the above is what a second Add of it meets. An Add of a
  pair that is present never changes the collection, and when the collection has
  no pair twice, the list of that user read afterwards shows exactly one entry with
  that symbol. No sequence of Add and Remove calls, started on the empty
  collection and in whatever conditions of the store, leads to a collection with a
  pair twice.
\<close>

theorem second_add_already_exists:
  "(uid \<noteq> [] \<and> ticker \<noteq> [] \<and> name \<noteq> [] \<and> fails db Connect = None \<and>
    fails db (Create uid (toUpperCase ticker) name) = None \<and>
    has_pair docs uid (toUpperCase ticker) \<longrightarrow>
      returned (addToWatchlist db docs uid ticker name)
        = Inr \<lparr>success = False, message = ''Stock already in watchlist''\<rparr>) \<and>
   (uid \<noteq> [] \<and> ticker \<noteq> [] \<and> name \<noteq> [] \<and> fails db Connect = None \<and>
    fails db (Create uid (toUpperCase ticker) name) = Some e \<and> err_code e \<noteq> Some 11000 \<longrightarrow>
      returned (addToWatchlist db docs uid ticker name)
        = Inr \<lparr>success = False, message = ''Failed to add to watchlist''\<rparr>) \<and>
   (returned (addToWatchlist db docs uid ticker name) = Inr res \<and> success res \<longrightarrow>
      has_pair (store_after (addToWatchlist db docs uid ticker name)) uid (toUpperCase ticker)) \<and>
   (has_pair docs uid (toUpperCase ticker) \<longrightarrow>
      store_after (addToWatchlist db docs uid ticker name) = docs) \<and>
   (unique_pairs docs \<and> has_pair docs uid (toUpperCase ticker) \<and>
    uid \<noteq> [] \<and> fails db' Connect = None \<and> fails db' (Find uid) = None \<longrightarrow>
      (\<exists>r. returned (getUserWatchlist db' env up
                (store_after (addToWatchlist db docs uid ticker name)) uid) = Inr r \<and>
           length (filter (\<lambda>x. symbol x = toUpperCase ticker) r) = 1)) \<and>
   unique_pairs (after_calls [] calls)"
proof -
  have dup: "uid \<noteq> [] \<and> ticker \<noteq> [] \<and> name \<noteq> [] \<and> fails db Connect = None \<and>
    fails db (Create uid (toUpperCase ticker) name) = None \<and>
    has_pair docs uid (toUpperCase ticker) \<longrightarrow>
      returned (addToWatchlist db docs uid ticker name)
        = Inr \<lparr>success = False, message = ''Stock already in watchlist''\<rparr>"
    by (intro impI, elim conjE) (rule addToWatchlist_duplicate)
  have other: "uid \<noteq> [] \<and> ticker \<noteq> [] \<and> name \<noteq> [] \<and> fails db Connect = None \<and>
    fails db (Create uid (toUpperCase ticker) name) = Some e \<and> err_code e \<noteq> Some 11000 \<longrightarrow>
      returned (addToWatchlist db docs uid ticker name)
        = Inr \<lparr>success = False, message = ''Failed to add to watchlist''\<rparr>"
    by (intro impI, elim conjE) (rule addToWatchlist_other_failure)
  have first: "returned (addToWatchlist db docs uid ticker name) = Inr res \<and> success res \<longrightarrow>
      has_pair (store_after (addToWatchlist db docs uid ticker name)) uid (toUpperCase ticker)"
    by (intro impI, elim conjE) (rule addToWatchlist_success_has_pair)
  have same: "has_pair docs uid (toUpperCase ticker) \<longrightarrow>
      store_after (addToWatchlist db docs uid ticker name) = docs"
    by (simp add: addToWatchlist_store_after)
  have listed: "unique_pairs docs \<and> has_pair docs uid (toUpperCase ticker) \<and>
    uid \<noteq> [] \<and> fails db' Connect = None \<and> fails db' (Find uid) = None \<longrightarrow>
      (\<exists>r. returned (getUserWatchlist db' env up
                (store_after (addToWatchlist db docs uid ticker name)) uid) = Inr r \<and>
           length (filter (\<lambda>x. symbol x = toUpperCase ticker) r) = 1)"
  proof (intro impI, elim conjE)
    assume uniq: "unique_pairs docs" and has: "has_pair docs uid (toUpperCase ticker)"
      and up: "uid \<noteq> []" "fails db' Connect = None" "fails db' (Find uid) = None"
    have after: "store_after (addToWatchlist db docs uid ticker name) = docs"
      using has same by simp
    obtain r where r: "returned (getUserWatchlist db' env up docs uid) = Inr r"
      and entries: "map watchlist_item.truncate r
                    = sort_addedAt_desc (filter (\<lambda>d. userId d = uid) docs)"
      using getUserWatchlist_entries [OF up, of env up docs] by blast
    have "length (filter (\<lambda>x. symbol x = toUpperCase ticker) r) = 1"
      by (rule listed_once [OF uniq has entries])
    with r show "\<exists>r. returned (getUserWatchlist db' env up
                (store_after (addToWatchlist db docs uid ticker name)) uid) = Inr r \<and>
           length (filter (\<lambda>x. symbol x = toUpperCase ticker) r) = 1"
      unfolding after by blast
  qed
  have inv: "unique_pairs (after_calls [] calls)"
    by (rule unique_pairs_after_calls) (simp add: unique_pairs_def)
  show ?thesis
    by (rule conjI [OF dup conjI [OF other conjI [OF first conjI [OF same conjI [OF listed inv]]]]])
qed

lemma upper_aapl: "toUpperCase ''aapl'' = ''AAPL''"
  by (simp add: toUpperCase_def upper_char_def)

text \<open>AAPL is added twice for one user, in lower case.\<close>

theorem second_add_already_exists_example:
  "store_after (addToWatchlist store_up [] ''u1'' ''aapl'' ''Apple Inc'')
     = [\<lparr>userId = ''u1'', symbol = ''AAPL'', company = ''Apple Inc'', addedAt = 3000\<rparr>] \<and>
   returned (addToWatchlist store_up
       [\<lparr>userId = ''u1'', symbol = ''AAPL'', company = ''Apple Inc'', addedAt = 3000\<rparr>]
       ''u1'' ''aapl'' ''Apple Inc'')
     = Inr \<lparr>success = False, message = ''Stock already in watchlist''\<rparr> \<and>
   (\<exists>r. returned (getUserWatchlist store_up env_no_key market
            (store_after (addToWatchlist store_up
               [\<lparr>userId = ''u1'', symbol = ''AAPL'', company = ''Apple Inc'', addedAt = 3000\<rparr>]
               ''u1'' ''aapl'' ''Apple Inc'')) ''u1'') = Inr r \<and>
        length (filter (\<lambda>x. symbol x = ''AAPL'') r) = 1)"
proof -
  define docs where
    "docs = [\<lparr>userId = ''u1'', symbol = ''AAPL'', company = ''Apple Inc'', addedAt = 3000\<rparr>]"
  have first: "store_after (addToWatchlist store_up [] ''u1'' ''aapl'' ''Apple Inc'') = docs"
    by (simp add: addToWatchlist_store_after upper_aapl store_up_def has_pair_def docs_def)
  have has: "has_pair docs ''u1'' (toUpperCase ''aapl'')"
    by (simp add: has_pair_def docs_def upper_aapl)
  have uniq: "unique_pairs docs"
    by (simp add: unique_pairs_def docs_def)
  have ok: "fails store_up Connect = None"
    "fails store_up (Create ''u1'' (toUpperCase ''aapl'') ''Apple Inc'') = None"
    "fails store_up (Find ''u1'') = None"
    by (simp_all add: store_up_def)
  note c5 = second_add_already_exists [where uid = "''u1''" and ticker = "''aapl''"
      and name = "''Apple Inc''" and db = store_up and db' = store_up and docs = docs
      and env = env_no_key and up = market]
  have second: "returned (addToWatchlist store_up docs ''u1'' ''aapl'' ''Apple Inc'')
     = Inr \<lparr>success = False, message = ''Stock already in watchlist''\<rparr>"
    using c5 [THEN conjunct1] has ok by simp
  have listed: "\<exists>r. returned (getUserWatchlist store_up env_no_key market
            (store_after (addToWatchlist store_up docs ''u1'' ''aapl'' ''Apple Inc'')) ''u1'') = Inr r \<and>
        length (filter (\<lambda>x. symbol x = ''AAPL'') r) = 1"
    using c5 [THEN conjunct2, THEN conjunct2, THEN conjunct2, THEN conjunct2, THEN conjunct1]
      has uniq ok by (simp add: upper_aapl)
  show ?thesis
    using first second listed unfolding docs_def by blast
qed

section \<open>Removing a pair twice\<close>

lemma no_pair_after_delete:
  assumes uniq: "unique_pairs docs"
  shows "\<not> has_pair (snd (delete_first (\<lambda>d. userId d = uid \<and> symbol d = t) docs)) uid t"
proof -
  have "snd (delete_first (\<lambda>d. (userId d, symbol d) = (uid, t)) docs)
        = filter (\<lambda>d. (userId d, symbol d) \<noteq> (uid, t)) docs"
    using uniq unfolding unique_pairs_def by (rule delete_first_distinct)
  then show ?thesis
    by (simp add: has_pair_def list_ex_iff)
qed

lemma removeFromWatchlist_absent:
  assumes up: "uid \<noteq> []" "ticker \<noteq> []" "fails db Connect = None"
    "fails db (DeleteOne uid (toUpperCase ticker)) = None"
    and absent: "\<not> has_pair docs uid (toUpperCase ticker)"
  shows "returned (removeFromWatchlist db docs uid ticker)
           = Inr \<lparr>success = False, message = ''Stock not found in watchlist''\<rparr> \<and>
         store_after (removeFromWatchlist db docs uid ticker) = docs"
proof -
  from absent have "\<forall>d \<in> set docs. \<not> (userId d = uid \<and> symbol d = toUpperCase ticker)"
    by (simp add: has_pair_def list_ex_iff)
  then have "delete_first (\<lambda>d. userId d = uid \<and> symbol d = toUpperCase ticker) docs = (0, docs)"
    by (rule delete_first_absent)
  then show ?thesis
    by (simp add: removeFromWatchlist_up [OF up])
qed

text \<open>
  Claim C6. The collection has no pair twice. If a Remove returns success, a Remove
  of the same pair on the collection it left, with the store answering, returns
  the failure \<^verbatim>\<open>Stock not found in watchlist\<close> and changes nothing. A Remove of a pair
  that is not in the collection, with the fields given and the store answering,
  returns the same failure and leaves the collection as it was.
\<close>

theorem remove_then_not_found:
  "(unique_pairs docs \<and>
    returned (removeFromWatchlist db docs uid ticker) = Inr res \<and> success res \<and>
    fails db' Connect = None \<and> fails db' (DeleteOne uid (toUpperCase ticker)) = None \<longrightarrow>
      returned (removeFromWatchlist db'
          (store_after (removeFromWatchlist db docs uid ticker)) uid ticker)
        = Inr \<lparr>success = False, message = ''Stock not found in watchlist''\<rparr> \<and>
      store_after (removeFromWatchlist db'
          (store_after (removeFromWatchlist db docs uid ticker)) uid ticker)
        = store_after (removeFromWatchlist db docs uid ticker)) \<and>
   (uid \<noteq> [] \<and> ticker \<noteq> [] \<and> fails db Connect = None \<and>
    fails db (DeleteOne uid (toUpperCase ticker)) = None \<and>
    \<not> has_pair docs uid (toUpperCase ticker) \<longrightarrow>
      returned (removeFromWatchlist db docs uid ticker)
        = Inr \<lparr>success = False, message = ''Stock not found in watchlist''\<rparr> \<and>
      store_after (removeFromWatchlist db docs uid ticker) = docs)"
proof -
  have again: "unique_pairs docs \<and>
    returned (removeFromWatchlist db docs uid ticker) = Inr res \<and> success res \<and>
    fails db' Connect = None \<and> fails db' (DeleteOne uid (toUpperCase ticker)) = None \<longrightarrow>
      returned (removeFromWatchlist db'
          (store_after (removeFromWatchlist db docs uid ticker)) uid ticker)
        = Inr \<lparr>success = False, message = ''Stock not found in watchlist''\<rparr> \<and>
      store_after (removeFromWatchlist db'
          (store_after (removeFromWatchlist db docs uid ticker)) uid ticker)
        = store_after (removeFromWatchlist db docs uid ticker)"
  proof (intro impI, elim conjE)
    assume uniq: "unique_pairs docs"
      and ret: "returned (removeFromWatchlist db docs uid ticker) = Inr res" and ok: "success res"
      and up': "fails db' Connect = None" "fails db' (DeleteOne uid (toUpperCase ticker)) = None"
    from removeFromWatchlist_success [OF ret ok]
    have args: "uid \<noteq> []" "ticker \<noteq> []"
      and up: "fails db Connect = None" "fails db (DeleteOne uid (toUpperCase ticker)) = None"
      by simp_all
    have after: "store_after (removeFromWatchlist db docs uid ticker)
                 = snd (delete_first (\<lambda>d. userId d = uid \<and> symbol d = toUpperCase ticker) docs)"
      by (simp add: removeFromWatchlist_up [OF args up])
    have "\<not> has_pair (store_after (removeFromWatchlist db docs uid ticker)) uid (toUpperCase ticker)"
      unfolding after by (rule no_pair_after_delete [OF uniq])
    from removeFromWatchlist_absent [OF args up' this]
    show "returned (removeFromWatchlist db'
          (store_after (removeFromWatchlist db docs uid ticker)) uid ticker)
        = Inr \<lparr>success = False, message = ''Stock not found in watchlist''\<rparr> \<and>
      store_after (removeFromWatchlist db'
          (store_after (removeFromWatchlist db docs uid ticker)) uid ticker)
        = store_after (removeFromWatchlist db docs uid ticker)" .
  qed
  have absent: "uid \<noteq> [] \<and> ticker \<noteq> [] \<and> fails db Connect = None \<and>
    fails db (DeleteOne uid (toUpperCase ticker)) = None \<and>
    \<not> has_pair docs uid (toUpperCase ticker) \<longrightarrow>
      returned (removeFromWatchlist db docs uid ticker)
        = Inr \<lparr>success = False, message = ''Stock not found in watchlist''\<rparr> \<and>
      store_after (removeFromWatchlist db docs uid ticker) = docs"
    by (intro impI, elim conjE) (rule removeFromWatchlist_absent)
  show ?thesis
    by (rule conjI [OF again absent])
qed

lemma upper_AAPL: "toUpperCase ''AAPL'' = ''AAPL''"
  by (simp add: toUpperCase_def upper_char_def)

lemma upper_TSLA: "toUpperCase ''TSLA'' = ''TSLA''"
  by (simp add: toUpperCase_def upper_char_def)

lemma remove_aapl:
  "removeFromWatchlist store_up [aapl, msft] ''u1'' ''AAPL'' =
     \<lparr>returned = Inr \<lparr>success = True, message = ''Removed from watchlist''\<rparr>,
      store_ops = [Connect, DeleteOne ''u1'' ''AAPL''], store_after = [msft], requests = []\<rparr>"
proof -
  have "fails store_up Connect = None" "fails store_up (DeleteOne ''u1'' (toUpperCase ''AAPL'')) = None"
    by (simp_all add: store_up_def)
  from removeFromWatchlist_up [of "''u1''" "''AAPL''", OF _ _ this, of "[aapl, msft]"]
  show ?thesis
    by (simp add: upper_AAPL aapl_def msft_def)
qed

text \<open>AAPL is removed twice, and TSLA, which was never added, once.\<close>

theorem remove_then_not_found_example:
  "returned (removeFromWatchlist store_up [aapl, msft] ''u1'' ''AAPL'')
     = Inr \<lparr>success = True, message = ''Removed from watchlist''\<rparr> \<and>
   store_after (removeFromWatchlist store_up [aapl, msft] ''u1'' ''AAPL'') = [msft] \<and>
   returned (removeFromWatchlist store_up [msft] ''u1'' ''AAPL'')
     = Inr \<lparr>success = False, message = ''Stock not found in watchlist''\<rparr> \<and>
   store_after (removeFromWatchlist store_up [msft] ''u1'' ''AAPL'') = [msft] \<and>
   returned (removeFromWatchlist store_up [aapl, msft] ''u1'' ''TSLA'')
     = Inr \<lparr>success = False, message = ''Stock not found in watchlist''\<rparr> \<and>
   store_after (removeFromWatchlist store_up [aapl, msft] ''u1'' ''TSLA'') = [aapl, msft]"
proof -
  have uniq: "unique_pairs [aapl, msft]"
    by (simp add: unique_pairs_def aapl_def msft_def)
  have ok: "fails store_up Connect = None"
    "fails store_up (DeleteOne ''u1'' (toUpperCase ''AAPL'')) = None"
    "fails store_up (DeleteOne ''u1'' (toUpperCase ''TSLA'')) = None"
    by (simp_all add: store_up_def)
  have first: "returned (removeFromWatchlist store_up [aapl, msft] ''u1'' ''AAPL'')
                 = Inr \<lparr>success = True, message = ''Removed from watchlist''\<rparr>"
    "success \<lparr>success = True, message = ''Removed from watchlist''\<rparr>"
    "store_after (removeFromWatchlist store_up [aapl, msft] ''u1'' ''AAPL'') = [msft]"
    by (simp_all add: remove_aapl)
  have absent: "\<not> has_pair [aapl, msft] ''u1'' (toUpperCase ''TSLA'')"
    by (simp add: has_pair_def upper_TSLA aapl_def msft_def)
  note again = remove_then_not_found [where docs = "[aapl, msft]" and db = store_up
      and db' = store_up and uid = "''u1''" and ticker = "''AAPL''"
      and res = "\<lparr>success = True, message = ''Removed from watchlist''\<rparr>", THEN conjunct1]
  note other = remove_then_not_found [where docs = "[aapl, msft]" and db = store_up
      and uid = "''u1''" and ticker = "''TSLA''", THEN conjunct2]
  have second: "returned (removeFromWatchlist store_up [msft] ''u1'' ''AAPL'')
     = Inr \<lparr>success = False, message = ''Stock not found in watchlist''\<rparr> \<and>
   store_after (removeFromWatchlist store_up [msft] ''u1'' ''AAPL'') = [msft]"
    using again uniq ok first by simp
  have third: "returned (removeFromWatchlist store_up [aapl, msft] ''u1'' ''TSLA'')
     = Inr \<lparr>success = False, message = ''Stock not found in watchlist''\<rparr> \<and>
   store_after (removeFromWatchlist store_up [aapl, msft] ''u1'' ''TSLA'') = [aapl, msft]"
    using other ok absent by simp
  show ?thesis
    using first(1,3) second third by simp
qed

section \<open>Removal in the table\<close>

lemma length_filter_other:
  "distinct (map f xs) \<Longrightarrow> k \<in> set (map f xs) \<Longrightarrow>
   length (filter (\<lambda>x. f x \<noteq> k) xs) = length xs - 1"
proof (induction xs)
  case Nil
  then show ?case by simp
next
  case (Cons x xs)
  show ?case
  proof (cases "f x = k")
    case True
    with Cons.prems have "k \<notin> f ` set xs" by auto
    then have "filter (\<lambda>x. f x \<noteq> k) xs = xs"
      by (auto simp: filter_id_conv)
    with True show ?thesis by simp
  next
    case False
    with Cons.prems have "k \<in> set (map f xs)" "distinct (map f xs)" by auto
    with Cons.IH have "length (filter (\<lambda>x. f x \<noteq> k) xs) = length xs - 1" by simp
    moreover have "xs \<noteq> []" using \<open>k \<in> set (map f xs)\<close> by auto
    ultimately show ?thesis using False by (cases xs) simp_all
  qed
qed

text \<open>
  Claim C9. When the call of the Remove action returns success, the rows of the
  view are the old rows without those whose symbol is the one removed: every row
  with another symbol stays, in its place, and nothing else appears; where the
  symbols of the rows are distinct and the symbol is among them this is exactly
  one row less. When the call returns a failure or throws, the rows are unchanged
  and an error notification is raised. In every case no row is marked as being
  removed afterwards.
\<close>

theorem handleRemove_frame:
  "(remove uid ticker = Inr res \<and> success res \<longrightarrow>
      items (fst (handleRemove remove uid st ticker))
        = filter (\<lambda>item. symbol item \<noteq> ticker) (items st) \<and>
      (\<forall>row \<in> set (items st). symbol row \<noteq> ticker \<longrightarrow>
         row \<in> set (items (fst (handleRemove remove uid st ticker)))) \<and>
      (\<forall>row \<in> set (items (fst (handleRemove remove uid st ticker))).
         row \<in> set (items st) \<and> symbol row \<noteq> ticker) \<and>
      (distinct (map symbol (items st)) \<and> ticker \<in> set (map symbol (items st)) \<longrightarrow>
         length (items (fst (handleRemove remove uid st ticker))) = length (items st) - 1) \<and>
      snd (handleRemove remove uid st ticker) = ToastSuccess ''Removed from watchlist'') \<and>
   (remove uid ticker = Inr res \<and> \<not> success res \<longrightarrow>
      items (fst (handleRemove remove uid st ticker)) = items st \<and>
      snd (handleRemove remove uid st ticker)
        = ToastError (if message res \<noteq> [] then message res else ''Failed to remove'')) \<and>
   (remove uid ticker = Inl e \<longrightarrow>
      items (fst (handleRemove remove uid st ticker)) = items st \<and>
      snd (handleRemove remove uid st ticker) = ToastError ''An error occurred'') \<and>
   removing (fst (handleRemove remove uid st ticker)) = None"
proof -
  have ok: "remove uid ticker = Inr res \<and> success res \<longrightarrow>
      items (fst (handleRemove remove uid st ticker))
        = filter (\<lambda>item. symbol item \<noteq> ticker) (items st) \<and>
      (\<forall>row \<in> set (items st). symbol row \<noteq> ticker \<longrightarrow>
         row \<in> set (items (fst (handleRemove remove uid st ticker)))) \<and>
      (\<forall>row \<in> set (items (fst (handleRemove remove uid st ticker))).
         row \<in> set (items st) \<and> symbol row \<noteq> ticker) \<and>
      (distinct (map symbol (items st)) \<and> ticker \<in> set (map symbol (items st)) \<longrightarrow>
         length (items (fst (handleRemove remove uid st ticker))) = length (items st) - 1) \<and>
      snd (handleRemove remove uid st ticker) = ToastSuccess ''Removed from watchlist''"
  proof (intro impI, elim conjE)
    assume call: "remove uid ticker = Inr res" "success res"
    have it: "items (fst (handleRemove remove uid st ticker))
        = filter (\<lambda>item. symbol item \<noteq> ticker) (items st)"
      by (simp add: handleRemove_def call)
    have len: "distinct (map symbol (items st)) \<and> ticker \<in> set (map symbol (items st)) \<longrightarrow>
         length (items (fst (handleRemove remove uid st ticker))) = length (items st) - 1"
      unfolding it using length_filter_other [of symbol "items st" ticker] by blast
    have toast: "snd (handleRemove remove uid st ticker) = ToastSuccess ''Removed from watchlist''"
      by (simp add: handleRemove_def call)
    show "items (fst (handleRemove remove uid st ticker))
        = filter (\<lambda>item. symbol item \<noteq> ticker) (items st) \<and>
      (\<forall>row \<in> set (items st). symbol row \<noteq> ticker \<longrightarrow>
         row \<in> set (items (fst (handleRemove remove uid st ticker)))) \<and>
      (\<forall>row \<in> set (items (fst (handleRemove remove uid st ticker))).
         row \<in> set (items st) \<and> symbol row \<noteq> ticker) \<and>
      (distinct (map symbol (items st)) \<and> ticker \<in> set (map symbol (items st)) \<longrightarrow>
         length (items (fst (handleRemove remove uid st ticker))) = length (items st) - 1) \<and>
      snd (handleRemove remove uid st ticker) = ToastSuccess ''Removed from watchlist''"
      using len toast by (simp add: it)
  qed
  have refused: "remove uid ticker = Inr res \<and> \<not> success res \<longrightarrow>
      items (fst (handleRemove remove uid st ticker)) = items st \<and>
      snd (handleRemove remove uid st ticker)
        = ToastError (if message res \<noteq> [] then message res else ''Failed to remove'')"
    by (simp add: handleRemove_def)
  have thrown: "remove uid ticker = Inl e \<longrightarrow>
      items (fst (handleRemove remove uid st ticker)) = items st \<and>
      snd (handleRemove remove uid st ticker) = ToastError ''An error occurred''"
    by (simp add: handleRemove_def)
  have fin: "removing (fst (handleRemove remove uid st ticker)) = None"
    by (simp add: handleRemove_def split: sum.splits)
  show ?thesis
    by (rule conjI [OF ok conjI [OF refused conjI [OF thrown fin]]])
qed

text \<open>The three outcomes of the call on a view of two rows: the action as it runs on a
  store that answers, on a store that is down, and a call that throws.\<close>

theorem handleRemove_frame_example:
  "items (fst (handleRemove (\<lambda>uid ticker. returned (removeFromWatchlist store_up [aapl, msft] uid ticker))
        ''u1'' \<lparr>items = [basic msft, basic aapl], removing = None\<rparr> ''AAPL''))
     = [basic msft] \<and>
   items (fst (handleRemove (\<lambda>uid ticker. returned (removeFromWatchlist store_down [aapl, msft] uid ticker))
        ''u1'' \<lparr>items = [basic msft, basic aapl], removing = None\<rparr> ''AAPL''))
     = [basic msft, basic aapl] \<and>
   snd (handleRemove (\<lambda>uid ticker. returned (removeFromWatchlist store_down [aapl, msft] uid ticker))
        ''u1'' \<lparr>items = [basic msft, basic aapl], removing = None\<rparr> ''AAPL'')
     = ToastError ''Failed to remove from watchlist'' \<and>
   items (fst (handleRemove (\<lambda>uid ticker. Inl (Thrown None))
        ''u1'' \<lparr>items = [basic msft, basic aapl], removing = None\<rparr> ''AAPL''))
     = [basic msft, basic aapl]"
proof -
  define view where "view = \<lparr>items = [basic msft, basic aapl], removing = None\<rparr>"
  have up: "returned (removeFromWatchlist store_up [aapl, msft] ''u1'' ''AAPL'')
              = Inr \<lparr>success = True, message = ''Removed from watchlist''\<rparr> \<and>
            success \<lparr>success = True, message = ''Removed from watchlist''\<rparr>"
    by (simp add: remove_aapl)
  have down: "returned (removeFromWatchlist store_down [aapl, msft] ''u1'' ''AAPL'')
              = Inr \<lparr>success = False, message = ''Failed to remove from watchlist''\<rparr> \<and>
            \<not> success \<lparr>success = False, message = ''Failed to remove from watchlist''\<rparr>"
    by (simp add: removeFromWatchlist_def removeFromWatchlist_try_def connectToDatabase_def
        store_down_def Let_def)
  have thrown: "(\<lambda>uid ticker. Inl (Thrown None) :: js_error + action_result) ''u1'' ''AAPL''
                  = Inl (Thrown None)"
    by simp
  note c9a = handleRemove_frame [where remove = "\<lambda>uid ticker. returned (removeFromWatchlist store_up [aapl, msft] uid ticker)"
      and uid = "''u1''" and ticker = "''AAPL''" and st = view
      and res = "\<lparr>success = True, message = ''Removed from watchlist''\<rparr>", THEN conjunct1, rule_format, OF up]
  note c9b = handleRemove_frame [where remove = "\<lambda>uid ticker. returned (removeFromWatchlist store_down [aapl, msft] uid ticker)"
      and uid = "''u1''" and ticker = "''AAPL''" and st = view
      and res = "\<lparr>success = False, message = ''Failed to remove from watchlist''\<rparr>",
      THEN conjunct2, THEN conjunct1, rule_format, OF down]
  note c9c = handleRemove_frame [where remove = "\<lambda>uid ticker. Inl (Thrown None)"
      and uid = "''u1''" and ticker = "''AAPL''" and st = view and e = "Thrown None",
      THEN conjunct2, THEN conjunct2, THEN conjunct1, rule_format, OF thrown]
  have a: "items (fst (handleRemove (\<lambda>uid ticker. returned (removeFromWatchlist store_up [aapl, msft] uid ticker))
        ''u1'' view ''AAPL'')) = [basic msft]"
    using c9a [THEN conjunct1] by (simp add: view_def basic_def msft_def aapl_def)
  have b: "items (fst (handleRemove (\<lambda>uid ticker. returned (removeFromWatchlist store_down [aapl, msft] uid ticker))
        ''u1'' view ''AAPL'')) = [basic msft, basic aapl]"
    using c9b [THEN conjunct1] by (simp add: view_def)
  have b': "snd (handleRemove (\<lambda>uid ticker. returned (removeFromWatchlist store_down [aapl, msft] uid ticker))
        ''u1'' view ''AAPL'') = ToastError ''Failed to remove from watchlist''"
    using c9b [THEN conjunct2] by simp
  have c: "items (fst (handleRemove (\<lambda>uid ticker. Inl (Thrown None))
        ''u1'' view ''AAPL'')) = [basic msft, basic aapl]"
    using c9c [THEN conjunct1] by (simp add: view_def)
  show ?thesis
    using a b b' c unfolding view_def by blast
qed

end
